theory Spec2Isabelle
  imports Main
begin

section \<open>Strings of the run-time\<close>

text \<open>
  A JavaScript string is a sequence of UTF-16 code units.  The scripts handle text
  outside ASCII (the euro sign, the range from U+00C0 to U+00FF of the character classes), so a
  string is modelled as the list of its code units.
\<close>

type_synonym jsstring = "nat list"

definition S :: "string \<Rightarrow> jsstring" where
  "S s = map of_char s"

definition in_ranges :: "(nat \<times> nat) list \<Rightarrow> nat \<Rightarrow> bool" where
  "in_ranges rs c = list_ex (\<lambda>(lo, hi). lo \<le> c \<and> c \<le> hi) rs"

text \<open>The class \<open>\s\<close>: WhiteSpace and LineTerminator of ECMAScript.\<close>

definition space_ranges :: "(nat \<times> nat) list" where
  "space_ranges = [(9, 13), (32, 32), (160, 160), (5760, 5760), (8192, 8202), (8232, 8233),
     (8239, 8239), (8287, 8287), (12288, 12288), (65279, 65279)]"

definition line_terminator_ranges :: "(nat \<times> nat) list" where
  "line_terminator_ranges = [(10, 10), (13, 13), (8232, 8233)]"

definition digit_ranges :: "(nat \<times> nat) list" where
  "digit_ranges = [(48, 57)]"

definition isSpace :: "nat \<Rightarrow> bool" where
  "isSpace c = in_ranges space_ranges c"

definition isDigit :: "nat \<Rightarrow> bool" where
  "isDigit c = in_ranges digit_ranges c"

text \<open>\<open>String.prototype.trim\<close>.\<close>

definition trim :: "jsstring \<Rightarrow> jsstring" where
  "trim s = rev (dropWhile isSpace (rev (dropWhile isSpace s)))"

section \<open>Regular expressions\<close>

datatype re =
    Eps
  | Lit jsstring
  | Cls bool "(nat \<times> nat) list"
  | Dot
  | Seq re re
  | Alt re re
  | Star re
  | LazyStar re
  | Opt re
  | Grp nat re
  | Bol
  | Eol

record regexp =
  source :: re
  ignoreCase :: bool
  multiline :: bool

record mstate =
  behind :: jsstring
  rest :: jsstring
  captures :: "jsstring option list"

definition canonicalize :: "(nat \<Rightarrow> nat) \<Rightarrow> bool \<Rightarrow> nat \<Rightarrow> nat" where
  "canonicalize uc ic ch =
     (if \<not> ic then ch
      else if ch < 128 then (if 97 \<le> ch \<and> ch \<le> 122 then ch - 32 else ch)
      else (let cu = uc ch in if cu < 128 then ch else cu))"

fun lit_match :: "(nat \<Rightarrow> nat) \<Rightarrow> bool \<Rightarrow> jsstring \<Rightarrow> jsstring \<Rightarrow> bool" where
  "lit_match uc ic [] s = True"
| "lit_match uc ic (c # w) [] = False"
| "lit_match uc ic (c # w) (d # s) =
     (canonicalize uc ic c = canonicalize uc ic d \<and> lit_match uc ic w s)"

definition cls_match :: "(nat \<Rightarrow> nat) \<Rightarrow> bool \<Rightarrow> bool \<Rightarrow> (nat \<times> nat) list \<Rightarrow> nat \<Rightarrow> bool" where
  "cls_match uc ic neg rs ch =
     (let found =
        (if ic
         then list_ex (\<lambda>(lo, hi). list_ex (\<lambda>a. canonicalize uc ic a = canonicalize uc ic ch)
                [lo ..< Suc hi]) rs
         else in_ranges rs ch)
      in found \<noteq> neg)"

definition dot_match :: "(nat \<Rightarrow> nat) \<Rightarrow> bool \<Rightarrow> nat \<Rightarrow> bool" where
  "dot_match uc ic ch =
     (\<not> in_ranges line_terminator_ranges ch \<or>
      (ic \<and> list_ex (\<lambda>a. \<not> in_ranges line_terminator_ranges a \<and>
                 canonicalize uc ic a = canonicalize uc ic ch) [0 ..< 65536]))"

fun groups_of :: "re \<Rightarrow> nat list" where
  "groups_of (Seq a b) = groups_of a @ groups_of b"
| "groups_of (Alt a b) = groups_of a @ groups_of b"
| "groups_of (Star r) = groups_of r"
| "groups_of (LazyStar r) = groups_of r"
| "groups_of (Opt r) = groups_of r"
| "groups_of (Grp n r) = n # groups_of r"
| "groups_of _ = []"

fun clear_groups :: "nat list \<Rightarrow> jsstring option list \<Rightarrow> jsstring option list" where
  "clear_groups [] cs = cs"
| "clear_groups (n # ns) cs = clear_groups ns (cs[n := None])"

definition step :: "mstate \<Rightarrow> (mstate \<Rightarrow> mstate option) \<Rightarrow> (nat \<Rightarrow> bool) \<Rightarrow> mstate option" where
  "step x k p =
     (case rest x of
        [] \<Rightarrow> None
      | ch # s \<Rightarrow> if p ch then k (x\<lparr>behind := ch # behind x, rest := s\<rparr>) else None)"

function (sequential) m ::
  "(nat \<Rightarrow> nat) \<Rightarrow> bool \<Rightarrow> bool \<Rightarrow> re \<Rightarrow> (mstate \<Rightarrow> mstate option) \<Rightarrow> mstate \<Rightarrow> mstate option"
where
  "m uc ic ml Eps k x = k x"
| "m uc ic ml (Lit w) k x =
     (if lit_match uc ic w (rest x)
      then k (x\<lparr>behind := rev (take (length w) (rest x)) @ behind x,
                rest := drop (length w) (rest x)\<rparr>)
      else None)"
| "m uc ic ml (Cls neg rs) k x = step x k (cls_match uc ic neg rs)"
| "m uc ic ml Dot k x = step x k (dot_match uc ic)"
| "m uc ic ml (Seq a b) k x = m uc ic ml a (\<lambda>y. m uc ic ml b k y) x"
| "m uc ic ml (Alt a b) k x =
     (case m uc ic ml a k x of Some z \<Rightarrow> Some z | None \<Rightarrow> m uc ic ml b k x)"
| "m uc ic ml (Star r) k x =
     (case m uc ic ml r
             (\<lambda>y. if length (rest y) < length (rest x) then m uc ic ml (Star r) k y else None)
             (x\<lparr>captures := clear_groups (groups_of r) (captures x)\<rparr>) of
        Some z \<Rightarrow> Some z
      | None \<Rightarrow> k x)"
| "m uc ic ml (LazyStar r) k x =
     (case k x of
        Some z \<Rightarrow> Some z
      | None \<Rightarrow>
          m uc ic ml r
            (\<lambda>y. if length (rest y) < length (rest x) then m uc ic ml (LazyStar r) k y else None)
            (x\<lparr>captures := clear_groups (groups_of r) (captures x)\<rparr>))"
| "m uc ic ml (Opt r) k x =
     (case m uc ic ml r
             (\<lambda>y. if length (rest y) < length (rest x) then k y else None)
             (x\<lparr>captures := clear_groups (groups_of r) (captures x)\<rparr>) of
        Some z \<Rightarrow> Some z
      | None \<Rightarrow> k x)"
| "m uc ic ml (Grp n r) k x =
     m uc ic ml r
       (\<lambda>y. k (y\<lparr>captures :=
                   (captures y)[n := Some (take (length (rest x) - length (rest y)) (rest x))]\<rparr>)) x"
| "m uc ic ml Bol k x =
     (if behind x = [] \<or> (ml \<and> in_ranges line_terminator_ranges (hd (behind x)))
      then k x else None)"
| "m uc ic ml Eol k x =
     (if rest x = [] \<or> (ml \<and> in_ranges line_terminator_ranges (hd (rest x)))
      then k x else None)"
  by pat_completeness auto
termination
  by (relation "inv_image (less_than <*lex*> less_than)
        (\<lambda>(uc, ic, ml, r, k, x). (size r, length (rest x)))") auto

text \<open>Derived forms of the pattern syntax.\<close>

definition many1 :: "re \<Rightarrow> re" where
  "many1 r = Seq r (Star r)"

definition lazy_many1 :: "re \<Rightarrow> re" where
  "lazy_many1 r = Seq r (LazyStar r)"

fun seqs :: "re list \<Rightarrow> re" where
  "seqs [] = Eps"
| "seqs [r] = r"
| "seqs (r # rs) = Seq r (seqs rs)"

fun alts :: "re list \<Rightarrow> re" where
  "alts [] = Eps"
| "alts [r] = r"
| "alts (r # rs) = Alt r (alts rs)"

definition space :: re where
  "space = Cls False space_ranges"

definition digit :: re where
  "digit = Cls False digit_ranges"

text \<open>
  \<open>RegExp.prototype.exec\<close> of a pattern without the \<open>g\<close> and \<open>y\<close> flags: the match is
  tried at every index from the start of the input, the first index with a match wins.
  The result holds the index, the array of the match (entry 0 the matched text, entry
  \<open>n\<close> the capture of group \<open>n\<close>) and the input after the match.
\<close>

record match_result =
  index :: nat
  groups :: "jsstring option list"
  after :: jsstring

definition ngroups :: "re \<Rightarrow> nat" where
  "ngroups r = (if groups_of r = [] then 0 else Suc (Max (set (groups_of r))))"

definition match_at :: "(nat \<Rightarrow> nat) \<Rightarrow> regexp \<Rightarrow> jsstring \<Rightarrow> jsstring \<Rightarrow> match_result option" where
  "match_at uc rx bef s =
     (case m uc (ignoreCase rx) (multiline rx) (Grp 0 (source rx)) Some
             \<lparr>behind = bef, rest = s, captures = replicate (ngroups (Grp 0 (source rx))) None\<rparr> of
        None \<Rightarrow> None
      | Some y \<Rightarrow> Some \<lparr>index = length bef, groups = captures y, after = rest y\<rparr>)"

fun exec_from :: "(nat \<Rightarrow> nat) \<Rightarrow> regexp \<Rightarrow> jsstring \<Rightarrow> jsstring \<Rightarrow> match_result option" where
  "exec_from uc rx bef [] = match_at uc rx bef []"
| "exec_from uc rx bef (c # s) =
     (case match_at uc rx bef (c # s) of
        Some r \<Rightarrow> Some r
      | None \<Rightarrow> exec_from uc rx (c # bef) s)"

definition exec :: "(nat \<Rightarrow> nat) \<Rightarrow> regexp \<Rightarrow> jsstring \<Rightarrow> match_result option" where
  "exec uc rx s = exec_from uc rx [] s"

definition test :: "(nat \<Rightarrow> nat) \<Rightarrow> regexp \<Rightarrow> jsstring \<Rightarrow> bool" where
  "test uc rx s = (exec uc rx s \<noteq> None)"

definition group :: "match_result \<Rightarrow> nat \<Rightarrow> jsstring option" where
  "group r n = (if n < length (groups r) then groups r ! n else None)"

text \<open>
  \<open>String.prototype.replace\<close> with a pattern that has the \<open>g\<close> flag and a replacement
  text without \<open>$\<close>: every match, found from left to right after the previous one, is
  replaced; after an empty match the search moves on by one code unit.
\<close>

fun replace_all_from ::
  "(nat \<Rightarrow> nat) \<Rightarrow> regexp \<Rightarrow> jsstring \<Rightarrow> jsstring \<Rightarrow> jsstring \<Rightarrow> jsstring" where
  "replace_all_from uc rx rep bef [] =
     (case match_at uc rx bef [] of Some r \<Rightarrow> rep | None \<Rightarrow> [])"
| "replace_all_from uc rx rep bef (c # cs) =
     (case match_at uc rx bef (c # cs) of
        Some r \<Rightarrow>
          if length (after r) < Suc (length cs)
          then rep @ replace_all_from uc rx rep
                 (rev (take (Suc (length cs) - length (after r)) (c # cs)) @ bef) (after r)
          else rep @ c # replace_all_from uc rx rep (c # bef) cs
      | None \<Rightarrow> c # replace_all_from uc rx rep (c # bef) cs)"

definition replace_all :: "(nat \<Rightarrow> nat) \<Rightarrow> regexp \<Rightarrow> jsstring \<Rightarrow> jsstring \<Rightarrow> jsstring" where
  "replace_all uc rx rep s = replace_all_from uc rx rep [] s"

definition regex :: "re \<Rightarrow> regexp" where
  "regex r = \<lparr>source = r, ignoreCase = False, multiline = False\<rparr>"


definition regex_i :: "re \<Rightarrow> regexp" where
  "regex_i r = \<lparr>source = r, ignoreCase = True, multiline = False\<rparr>"

definition regex_m :: "re \<Rightarrow> regexp" where
  "regex_m r = \<lparr>source = r, ignoreCase = False, multiline = True\<rparr>"

definition regex_im :: "re \<Rightarrow> regexp" where
  "regex_im r = \<lparr>source = r, ignoreCase = True, multiline = True\<rparr>"

text \<open>
  \<open>String.prototype.replace\<close> with a pattern without the \<open>g\<close> flag: the first match
  only.
\<close>

definition replace_rx :: "(nat \<Rightarrow> nat) \<Rightarrow> regexp \<Rightarrow> jsstring \<Rightarrow> jsstring \<Rightarrow> jsstring" where
  "replace_rx uc rx rep s =
     (case exec uc rx s of
        None \<Rightarrow> s
      | Some r \<Rightarrow> take (index r) s @ rep @ after r)"

text \<open>
  \<open>String.prototype.split\<close> with a pattern without capture groups.  The match is tried
  at every index \<open>q\<close> after the end \<open>p\<close> of the previous separator; an empty match at \<open>p\<close>
  is skipped, an empty match further on cuts there.
\<close>

fun split_rx_from ::
  "(nat \<Rightarrow> nat) \<Rightarrow> regexp \<Rightarrow> jsstring \<Rightarrow> jsstring \<Rightarrow> jsstring \<Rightarrow> jsstring list" where
  "split_rx_from uc rx tok bef [] = [rev tok]"
| "split_rx_from uc rx tok bef (c # cs) =
     (case match_at uc rx bef (c # cs) of
        None \<Rightarrow> split_rx_from uc rx (c # tok) (c # bef) cs
      | Some r \<Rightarrow>
          if length (after r) < Suc (length cs)
          then rev tok # split_rx_from uc rx []
                 (rev (take (Suc (length cs) - length (after r)) (c # cs)) @ bef) (after r)
          else if tok = [] then split_rx_from uc rx [c] (c # bef) cs
          else rev tok # split_rx_from uc rx [c] (c # bef) cs)"

definition split_rx :: "(nat \<Rightarrow> nat) \<Rightarrow> regexp \<Rightarrow> jsstring \<Rightarrow> jsstring list" where
  "split_rx uc rx s =
     (if s = [] then (if match_at uc rx [] [] = None then [[]] else [])
      else split_rx_from uc rx [] [] s)"

section \<open>String methods with a text argument\<close>

fun starts_with :: "jsstring \<Rightarrow> jsstring \<Rightarrow> bool" where
  "starts_with [] s = True"
| "starts_with (c # w) [] = False"
| "starts_with (c # w) (d # s) = (c = d \<and> starts_with w s)"

text \<open>\<open>String.prototype.includes\<close>.\<close>

fun str_includes :: "jsstring \<Rightarrow> jsstring \<Rightarrow> bool" where
  "str_includes w [] = (w = [])"
| "str_includes w (c # s) = (starts_with w (c # s) \<or> str_includes w s)"

text \<open>
  \<open>String.prototype.replace\<close> with a text pattern and a replacement without \<open>$\<close>: the
  first occurrence only.
\<close>

fun replace_first :: "jsstring \<Rightarrow> jsstring \<Rightarrow> jsstring \<Rightarrow> jsstring" where
  "replace_first w rep [] = (if w = [] then rep else [])"
| "replace_first w rep (c # s) =
     (if starts_with w (c # s) then rep @ drop (length w) (c # s)
      else c # replace_first w rep s)"

text \<open>\<open>String.prototype.split\<close> with a separator text that is not empty.\<close>

function split_from :: "jsstring \<Rightarrow> jsstring \<Rightarrow> jsstring \<Rightarrow> jsstring list" where
  "split_from sep tok [] = [rev tok]"
| "split_from sep tok (c # s) =
     (if sep \<noteq> [] \<and> starts_with sep (c # s)
      then rev tok # split_from sep [] (drop (length sep) (c # s))
      else split_from sep (c # tok) s)"
  by pat_completeness auto
termination
  by (relation "measure (\<lambda>(sep, tok, s). length s)") auto

definition split :: "jsstring \<Rightarrow> jsstring \<Rightarrow> jsstring list" where
  "split sep s = split_from sep [] s"

text \<open>
  \<open>String.prototype.toLowerCase\<close> on ASCII text, the only text the scripts apply it to (a
  capture of \<open>right|left|both\<close> under the \<open>i\<close> flag, which no code unit above 127
  matches).
\<close>

definition toLowerCase :: "jsstring \<Rightarrow> jsstring" where
  "toLowerCase s = map (\<lambda>c. if 65 \<le> c \<and> c \<le> 90 then c + 32 else c) s"

text \<open>
  \<open>parseInt(text, 10)\<close>: leading white space is skipped, a sign is read, then the longest
  run of decimal digits; \<open>None\<close> is \<open>NaN\<close>.  The value is the exact integer; the
  rounding of a Number above \<open>2^53\<close> is not modelled.
\<close>

definition digits_value :: "jsstring \<Rightarrow> int" where
  "digits_value ds = foldl (\<lambda>n d. 10 * n + (int d - 48)) 0 ds"

definition parseInt :: "jsstring \<Rightarrow> int option" where
  "parseInt text =
     (let t = dropWhile isSpace text;
          neg = (t \<noteq> [] \<and> hd t = 45);
          u = (if t \<noteq> [] \<and> (hd t = 45 \<or> hd t = 43) then tl t else t);
          ds = takeWhile isDigit u
      in if ds = [] then None
         else Some (if neg then - digits_value ds else digits_value ds))"

section \<open>Text Normalizer\<close>

text \<open>\<open>cleanText\<close>, the same in both scrapers.\<close>

definition cleanText :: "jsstring option \<Rightarrow> jsstring" where
  "cleanText text =
     (case text of
        None \<Rightarrow> []
      | Some t \<Rightarrow>
          if t = [] then []
          else trim
            (replace_all id (regex (many1 space)) (S '' '')
            (replace_all id (regex (Lit (S ''&#39;''))) [39]
            (replace_all id (regex (Lit (S ''&quot;''))) [34]
            (replace_all id (regex (Lit (S ''&gt;''))) (S ''>'')
            (replace_all id (regex (Lit (S ''&lt;''))) (S ''<'')
            (replace_all id (regex (Lit (S ''&amp;''))) (S ''&'')
            (replace_all id (regex (Lit (S ''&nbsp;''))) (S '' '') t))))))))"

section \<open>Identifier and slug resolver\<close>

datatype kind = verein | spieler

definition kind_name :: "kind \<Rightarrow> jsstring" where
  "kind_name t = (case t of verein \<Rightarrow> S ''verein'' | spieler \<Rightarrow> S ''spieler'')"

definition extractSlug :: "jsstring \<Rightarrow> jsstring" where
  "extractSlug url =
     (case split (S ''/'') url of
        _ # p # _ \<Rightarrow> if p = [] then S ''unknown'' else p
      | _ \<Rightarrow> S ''unknown'')"

definition idPattern :: "kind \<Rightarrow> regexp" where
  "idPattern t = regex (seqs [Lit (S ''/'' @ kind_name t @ S ''/''), Grp 1 (many1 digit)])"

definition extractId :: "jsstring \<Rightarrow> kind \<Rightarrow> jsstring" where
  "extractId url t =
     (case exec id (idPattern t) url of
        None \<Rightarrow> S ''unknown''
      | Some mt \<Rightarrow> (case group mt 1 of Some d \<Rightarrow> d | None \<Rightarrow> S ''unknown''))"

definition constructImageUrl :: "jsstring \<Rightarrow> jsstring" where
  "constructImageUrl playerId =
     S ''https://img.a.transfermarkt.technology/portrait/header/'' @ playerId @ S ''.jpg''"

section \<open>Documents, as the query interface shows them\<close>

text \<open>
  The scrapers see a parsed document through \<open>querySelectorAll\<close>, \<open>querySelector\<close>,
  \<open>getAttribute\<close> and \<open>textContent\<close> only.  A document is modelled by the answers to the
  queries the scripts make: the anchors and images in document order, the headline
  (\<open>h1.data-header__headline-wrapper\<close>), the market value anchors
  (\<open>a.data-header__market-value-wrapper\<close>) and the body text.  An absent attribute, element or
  text is \<open>None\<close>.
\<close>

record link =
  href :: "jsstring option"
  textContent :: "jsstring option"

record image =
  data_src :: "jsstring option"
  src :: "jsstring option"

record doc =
  anchors :: "link list"
  images :: "image list"
  headline :: "jsstring option"
  marketValueWrappers :: "jsstring option list"
  body :: "jsstring option"

section \<open>Entity discovery\<close>

definition BASE_URL :: jsstring where
  "BASE_URL = S ''https://www.transfermarkt.com''"

definition PREMIER_LEAGUE_URL :: jsstring where
  "PREMIER_LEAGUE_URL = BASE_URL @ S ''/premier-league/startseite/wettbewerb/GB1''"

record Team =
  t_name :: jsstring
  t_url :: jsstring
  t_slug :: jsstring
  t_id :: jsstring

text \<open>The \<open>Player\<close> of \<open>scrape-transfermarkt.ts\<close>.\<close>

record Player =
  p_id :: jsstring
  p_name :: jsstring
  p_url :: jsstring
  p_imageUrl :: "jsstring option"
  p_localImagePath :: "jsstring option"
  p_position :: "jsstring option"
  p_number :: "jsstring option"
  p_team :: jsstring
  p_teamSlug :: jsstring

text \<open>The entry \<open>{ id, name, url }\<close> of \<open>scrapeTeamPlayerList\<close>.\<close>

record BasicInfo =
  b_id :: jsstring
  b_name :: jsstring
  b_url :: jsstring

text \<open>\<open>/^\/[^/]+\/startseite\/verein\/\d+/\<close> and \<open>/^\/[^/]+\/profil\/spieler\/\d+/\<close>.\<close>

definition teamHrefPattern :: regexp where
  "teamHrefPattern =
     regex (seqs [Bol, Lit (S ''/''), many1 (Cls True [(47, 47)]),
                  Lit (S ''/startseite/verein/''), many1 digit])"

definition playerHrefPattern :: regexp where
  "playerHrefPattern =
     regex (seqs [Bol, Lit (S ''/''), many1 (Cls True [(47, 47)]),
                  Lit (S ''/profil/spieler/''), many1 digit])"

text \<open>\<open>/^\d+$/\<close>.\<close>

definition numericPattern :: regexp where
  "numericPattern = regex (seqs [Bol, many1 digit, Eol])"

text \<open>
  The \<open>extract\<close> callback of \<open>scrapeTeams\<close> (the same in both scrapers): the loop over the
  anchors, with the list \<open>teams\<close> and the set \<open>seenIds\<close> it updates.  Every
  \<open>continue\<close> of the source is a branch that goes on with the next anchor.
\<close>

fun teams_loop :: "link list \<Rightarrow> Team list \<Rightarrow> jsstring set \<Rightarrow> Team list" where
  "teams_loop [] teams seenIds = teams"
| "teams_loop (link # links) teams seenIds =
     (let name = cleanText (textContent link) in
      case href link of
        None \<Rightarrow> teams_loop links teams seenIds
      | Some h \<Rightarrow>
          if h \<noteq> [] \<and> name \<noteq> [] \<and> test id teamHrefPattern h
          then
            if name = [] \<or> length name < 3 then teams_loop links teams seenIds
            else if test id numericPattern name then teams_loop links teams seenIds
            else
              let teamId = extractId h verein in
              if teamId \<in> seenIds then teams_loop links teams seenIds
              else teams_loop links
                     (teams @ [\<lparr>t_name = name,
                                t_url = BASE_URL @ hd (split (S ''/saison_id'') h),
                                t_slug = extractSlug h,
                                t_id = teamId\<rparr>])
                     (insert teamId seenIds)
          else teams_loop links teams seenIds)"

definition scrapeTeams_extract :: "doc \<Rightarrow> Team list" where
  "scrapeTeams_extract d = teams_loop (anchors d) [] {}"

text \<open>The \<open>extract\<close> callback of \<open>scrapeTeamPlayers\<close> (\<open>scrape-transfermarkt.ts\<close>).\<close>

fun players_loop :: "Team \<Rightarrow> link list \<Rightarrow> Player list \<Rightarrow> jsstring set \<Rightarrow> Player list" where
  "players_loop team [] players seenIds = players"
| "players_loop team (link # links) players seenIds =
     (let name = cleanText (textContent link) in
      case href link of
        None \<Rightarrow> players_loop team links players seenIds
      | Some h \<Rightarrow>
          if h \<noteq> [] \<and> name \<noteq> [] \<and> test id playerHrefPattern h
          then
            if name = [] \<or> length name < 2 then players_loop team links players seenIds
            else if test id numericPattern name then players_loop team links players seenIds
            else
              let playerId = extractId h spieler in
              if playerId \<in> seenIds then players_loop team links players seenIds
              else players_loop team links
                     (players @ [\<lparr>p_id = playerId,
                                  p_name = name,
                                  p_url = BASE_URL @ h,
                                  p_imageUrl = Some (constructImageUrl playerId),
                                  p_localImagePath = None,
                                  p_position = None,
                                  p_number = None,
                                  p_team = t_name team,
                                  p_teamSlug = t_slug team\<rparr>])
                     (insert playerId seenIds)
          else players_loop team links players seenIds)"

definition scrapeTeamPlayers_extract :: "Team \<Rightarrow> doc \<Rightarrow> Player list" where
  "scrapeTeamPlayers_extract team d = players_loop team (anchors d) [] {}"

text \<open>The \<open>extract\<close> callback of \<open>scrapeTeamPlayerList\<close> (the profile scraper).\<close>

fun playerList_loop :: "link list \<Rightarrow> BasicInfo list \<Rightarrow> jsstring set \<Rightarrow> BasicInfo list" where
  "playerList_loop [] players seenIds = players"
| "playerList_loop (link # links) players seenIds =
     (let name = cleanText (textContent link) in
      case href link of
        None \<Rightarrow> playerList_loop links players seenIds
      | Some h \<Rightarrow>
          if h \<noteq> [] \<and> name \<noteq> [] \<and> test id playerHrefPattern h
          then
            if name = [] \<or> length name < 2 then playerList_loop links players seenIds
            else if test id numericPattern name then playerList_loop links players seenIds
            else
              let playerId = extractId h spieler in
              if playerId \<in> seenIds then playerList_loop links players seenIds
              else playerList_loop links
                     (players @ [\<lparr>b_id = playerId, b_name = name, b_url = BASE_URL @ h\<rparr>])
                     (insert playerId seenIds)
          else playerList_loop links players seenIds)"

definition scrapeTeamPlayerList_extract :: "doc \<Rightarrow> BasicInfo list" where
  "scrapeTeamPlayerList_extract d = playerList_loop (anchors d) [] {}"

section \<open>Field extraction\<close>

datatype number = Num int | NaN

definition parseInt10 :: "jsstring \<Rightarrow> number" where
  "parseInt10 text = (case parseInt text of None \<Rightarrow> NaN | Some n \<Rightarrow> Num n)"

text \<open>The object the \<open>extract\<close> callback of \<open>scrapePlayerProfile\<close> returns.\<close>

record Extracted =
  x_imageUrl :: "jsstring option"
  x_shirtNumber :: "jsstring option"
  x_dateOfBirth :: "jsstring option"
  x_age :: "number option"
  x_placeOfBirth :: "jsstring option"
  x_citizenship :: "jsstring list option"
  x_height :: "jsstring option"
  x_position :: "jsstring option"
  x_foot :: "jsstring option"
  x_currentClub :: "jsstring option"
  x_joined :: "jsstring option"
  x_contractExpires :: "jsstring option"
  x_marketValue :: "jsstring option"
  x_agent :: "jsstring option"
  x_internationalTeam :: "jsstring option"
  x_internationalCaps :: "number option"
  x_internationalGoals :: "number option"

text \<open>The \<open>Player\<close> of the profile scraper.\<close>

record Profile =
  f_id :: jsstring
  f_name :: jsstring
  f_url :: jsstring
  f_imageUrl :: "jsstring option"
  f_localImagePath :: "jsstring option"
  f_team :: jsstring
  f_teamSlug :: jsstring
  dateOfBirth :: "jsstring option"
  age :: "number option"
  placeOfBirth :: "jsstring option"
  citizenship :: "jsstring list option"
  height :: "jsstring option"
  position :: "jsstring option"
  foot :: "jsstring option"
  currentClub :: "jsstring option"
  joined :: "jsstring option"
  contractExpires :: "jsstring option"
  marketValue :: "jsstring option"
  shirtNumber :: "jsstring option"
  agent :: "jsstring option"
  internationalTeam :: "jsstring option"
  internationalCaps :: "number option"
  internationalGoals :: "number option"

text \<open>\<open>a || b\<close> on two attribute values: the first that is neither absent nor empty.\<close>

definition or_else :: "jsstring option \<Rightarrow> jsstring option \<Rightarrow> jsstring option" where
  "or_else a b = (case a of None \<Rightarrow> b | Some t \<Rightarrow> if t = [] then b else Some t)"

text \<open>
  In the patterns below the first group takes part in every match, so \<open>match[1]\<close> is a
  text; \<open>capture\<close> reads it.
\<close>

definition capture :: "match_result \<Rightarrow> nat \<Rightarrow> jsstring" where
  "capture mt n = (case group mt n of Some g \<Rightarrow> g | None \<Rightarrow> [])"

fun extract_imageUrl :: "image list \<Rightarrow> jsstring option" where
  "extract_imageUrl [] = None"
| "extract_imageUrl (img # imgs) =
     (case or_else (data_src img) (src img) of
        None \<Rightarrow> extract_imageUrl imgs
      | Some s \<Rightarrow>
          if s \<noteq> [] \<and> str_includes (S ''portrait'') s
          then Some (replace_first (S ''/big/'') (S ''/header/'')
                    (replace_first (S ''/medium/'') (S ''/header/'')
                    (replace_first (S ''/small/'') (S ''/header/'') s)))
          else extract_imageUrl imgs)"

text \<open>\<open>/#(\d+)/\<close> on the normalised headline.\<close>

definition shirtPattern :: regexp where
  "shirtPattern = regex (seqs [Lit (S ''#''), Grp 1 (many1 digit)])"

definition extract_shirtNumber :: "jsstring option \<Rightarrow> jsstring option" where
  "extract_shirtNumber h =
     (case exec id shirtPattern (cleanText h) of
        None \<Rightarrow> None
      | Some mt \<Rightarrow> group mt 1)"

text \<open>\<open>/(\<euro>[\d,.]+[mk]?)/i\<close>; the euro sign is the code unit 8364.\<close>

definition euro :: jsstring where
  "euro = [8364]"

definition marketValuePattern :: regexp where
  "marketValuePattern =
     regex_i (Grp 1 (seqs [Lit euro, many1 (Cls False [(48, 57), (44, 44), (46, 46)]),
                           Opt (Cls False [(109, 109), (107, 107)])]))"

fun extract_marketValue :: "(nat \<Rightarrow> nat) \<Rightarrow> jsstring option list \<Rightarrow> jsstring option" where
  "extract_marketValue uc [] = None"
| "extract_marketValue uc (el # els) =
     (let text = cleanText el in
      if text \<noteq> [] \<and> str_includes euro text
      then (case exec uc marketValuePattern text of
              None \<Rightarrow> None
            | Some mvMatch \<Rightarrow> group mvMatch 1)
      else extract_marketValue uc els)"

definition date :: re where
  "date = seqs [digit, digit, Lit (S ''/''), digit, digit, Lit (S ''/''),
                digit, digit, digit, digit]"

text \<open>
  \<open>/Date of birth\/Age:\s*(\d{2}\/\d{2}\/\d{4})\s*\((\d+)\)/\<close> and
  \<open>/Date of birth:\s*(\d{2}\/\d{2}\/\d{4})/\<close>.
\<close>

definition dobAgePattern :: regexp where
  "dobAgePattern =
     regex (seqs [Lit (S ''Date of birth/Age:''), Star space, Grp 1 date, Star space,
                  Lit (S ''(''), Grp 2 (many1 digit), Lit (S '')'')])"

definition dobPattern :: regexp where
  "dobPattern = regex (seqs [Lit (S ''Date of birth:''), Star space, Grp 1 date])"

definition dobPatterns :: "regexp list" where
  "dobPatterns = [dobAgePattern, dobPattern]"

fun extract_dob :: "regexp list \<Rightarrow> jsstring \<Rightarrow> jsstring option \<times> number option" where
  "extract_dob [] bodyText = (None, None)"
| "extract_dob (pattern # patterns) bodyText =
     (case exec id pattern bodyText of
        None \<Rightarrow> extract_dob patterns bodyText
      | Some mt \<Rightarrow>
          (group mt 1,
           (case group mt 2 of
              None \<Rightarrow> None
            | Some g \<Rightarrow> if g = [] then None else Some (parseInt10 g))))"

definition latin :: "(nat \<times> nat) list" where
  "latin = [(65, 90), (97, 122), (192, 255)]"

definition ascii_letters :: "(nat \<times> nat) list" where
  "ascii_letters = [(65, 90), (97, 122)]"

definition two_spaces :: re where
  "two_spaces = seqs [space, space, Star space]"

text \<open>
  \<open>/Place of birth:\s*([A-Za-z\<dots>\s\-']+?)(?:\s{2,}|Citizenship|Height|Position|Foot|$)/m\<close>,
  the class with the range from U+00C0 to U+00FF.
\<close>

definition pobPattern :: regexp where
  "pobPattern =
     regex_m (seqs [Lit (S ''Place of birth:''), Star space,
       Grp 1 (lazy_many1 (Cls False (latin @ space_ranges @ [(45, 45), (39, 39)]))),
       alts [two_spaces, Lit (S ''Citizenship''), Lit (S ''Height''), Lit (S ''Position''),
             Lit (S ''Foot''), Eol]])"

definition extract_placeOfBirth :: "jsstring \<Rightarrow> jsstring option" where
  "extract_placeOfBirth bodyText =
     (case exec id pobPattern bodyText of
        None \<Rightarrow> None
      | Some mt \<Rightarrow> Some (cleanText (group mt 1)))"

text \<open>\<open>/Height:\s*([\d,\.]+\s*m)/i\<close>.\<close>

definition heightPattern :: regexp where
  "heightPattern =
     regex_i (seqs [Lit (S ''Height:''), Star space,
       Grp 1 (seqs [many1 (Cls False [(48, 57), (44, 44), (46, 46)]), Star space, Lit (S ''m'')])])"

definition extract_height :: "(nat \<Rightarrow> nat) \<Rightarrow> jsstring \<Rightarrow> jsstring option" where
  "extract_height uc bodyText =
     (case exec uc heightPattern bodyText of
        None \<Rightarrow> None
      | Some mt \<Rightarrow> group mt 1)"

text \<open>
  \<open>/Position:\s*(?:Attack\s*-\s*|Midfield\s*-\s*|Defender\s*-\s*)?([A-Za-z\-\s]+?)(?:\s+Foot|\s+Agent|\s+Player|\s+National|$)/im\<close>
  and \<open>/Main position:\s*([A-Za-z\-\s]+)/im\<close>; the clean-up pattern is
  \<open>/\s*(National|Player|agent).*$/i\<close>.
\<close>

definition posPatterns :: "regexp list" where
  "posPatterns =
     [regex_im (seqs [Lit (S ''Position:''), Star space,
        Opt (alts [seqs [Lit (S ''Attack''), Star space, Lit (S ''-''), Star space],
                   seqs [Lit (S ''Midfield''), Star space, Lit (S ''-''), Star space],
                   seqs [Lit (S ''Defender''), Star space, Lit (S ''-''), Star space]]),
        Grp 1 (lazy_many1 (Cls False (ascii_letters @ [(45, 45)] @ space_ranges))),
        alts [seqs [many1 space, Lit (S ''Foot'')], seqs [many1 space, Lit (S ''Agent'')],
              seqs [many1 space, Lit (S ''Player'')], seqs [many1 space, Lit (S ''National'')],
              Eol]]),
      regex_im (seqs [Lit (S ''Main position:''), Star space,
        Grp 1 (many1 (Cls False (ascii_letters @ [(45, 45)] @ space_ranges)))])]"

definition positionCleanup :: regexp where
  "positionCleanup =
     regex_i (seqs [Star space,
       Grp 1 (alts [Lit (S ''National''), Lit (S ''Player''), Lit (S ''agent'')]),
       Star Dot, Eol])"

fun extract_position :: "(nat \<Rightarrow> nat) \<Rightarrow> regexp list \<Rightarrow> jsstring \<Rightarrow> jsstring option" where
  "extract_position uc [] bodyText = None"
| "extract_position uc (pattern # patterns) bodyText =
     (case exec uc pattern bodyText of
        None \<Rightarrow> extract_position uc patterns bodyText
      | Some mt \<Rightarrow> Some (trim (replace_rx uc positionCleanup [] (cleanText (group mt 1)))))"

text \<open>\<open>/Foot:\s*(right|left|both)/i\<close>.\<close>

definition footPattern :: regexp where
  "footPattern =
     regex_i (seqs [Lit (S ''Foot:''), Star space,
       Grp 1 (alts [Lit (S ''right''), Lit (S ''left''), Lit (S ''both'')])])"

definition extract_foot :: "(nat \<Rightarrow> nat) \<Rightarrow> jsstring \<Rightarrow> jsstring option" where
  "extract_foot uc bodyText =
     (case exec uc footPattern bodyText of
        None \<Rightarrow> None
      | Some mt \<Rightarrow> Some (toLowerCase (capture mt 1)))"

text \<open>
  \<open>/Citizenship:\s*([A-Za-z\<dots>\s]+?)(?:\s{2,}|Position|Height|Foot|$)/m\<close>; the capture is
  trimmed, split at \<open>/\s{2,}/\<close>, and the trimmed parts longer than one code unit are kept.
\<close>

definition citizenPattern :: regexp where
  "citizenPattern =
     regex_m (seqs [Lit (S ''Citizenship:''), Star space,
       Grp 1 (lazy_many1 (Cls False (latin @ space_ranges))),
       alts [two_spaces, Lit (S ''Position''), Lit (S ''Height''), Lit (S ''Foot''), Eol]])"

definition citizen_parts :: "match_result \<Rightarrow> jsstring list" where
  "citizen_parts citizenMatch =
     map trim (split_rx id (regex two_spaces) (trim (capture citizenMatch 1)))"

definition extract_citizenship :: "jsstring \<Rightarrow> jsstring list" where
  "extract_citizenship bodyText =
     (case exec id citizenPattern bodyText of
        None \<Rightarrow> []
      | Some citizenMatch \<Rightarrow> filter (\<lambda>c. length c > 1) (citizen_parts citizenMatch))"

text \<open>
  \<open>/Agent:\s*([A-Za-z\s\.\-&]+?)(?:\s+verified|\s+Current|\s{2,}|$)/im\<close>, cleaned of a
  final \<open>/\s*\.\.\.$/\<close>.
\<close>

definition agentPattern :: regexp where
  "agentPattern =
     regex_im (seqs [Lit (S ''Agent:''), Star space,
       Grp 1 (lazy_many1 (Cls False (ascii_letters @ space_ranges @ [(46, 46), (45, 45), (38, 38)]))),
       alts [seqs [many1 space, Lit (S ''verified'')], seqs [many1 space, Lit (S ''Current'')],
             two_spaces, Eol]])"

definition dotsPattern :: regexp where
  "dotsPattern = regex (seqs [Star space, Lit (S ''...''), Eol])"

definition extract_agent :: "(nat \<Rightarrow> nat) \<Rightarrow> jsstring \<Rightarrow> jsstring option" where
  "extract_agent uc bodyText =
     (case exec uc agentPattern bodyText of
        None \<Rightarrow> None
      | Some mt \<Rightarrow> Some (replace_rx id dotsPattern [] (cleanText (group mt 1))))"

text \<open>
  \<open>/Joined:\s*(\d{2}\/\d{2}\/\d{4})/i\<close> and \<open>/Contract expires:\s*(\d{2}\/\d{2}\/\d{4})/i\<close>.
\<close>

definition joinedPattern :: regexp where
  "joinedPattern = regex_i (seqs [Lit (S ''Joined:''), Star space, Grp 1 date])"

definition contractPattern :: regexp where
  "contractPattern = regex_i (seqs [Lit (S ''Contract expires:''), Star space, Grp 1 date])"

definition extract_date :: "(nat \<Rightarrow> nat) \<Rightarrow> regexp \<Rightarrow> jsstring \<Rightarrow> jsstring option" where
  "extract_date uc pattern bodyText =
     (case exec uc pattern bodyText of
        None \<Rightarrow> None
      | Some mt \<Rightarrow> group mt 1)"

text \<open>\<open>/Current club:\s*([A-Za-z\<dots>\s\.\-&]+?)(?:\s{2,}|Joined|Contract|$)/m\<close>.\<close>

definition clubPattern :: regexp where
  "clubPattern =
     regex_m (seqs [Lit (S ''Current club:''), Star space,
       Grp 1 (lazy_many1 (Cls False (latin @ space_ranges @ [(46, 46), (45, 45), (38, 38)]))),
       alts [two_spaces, Lit (S ''Joined''), Lit (S ''Contract''), Eol]])"

definition extract_currentClub :: "jsstring \<Rightarrow> jsstring option" where
  "extract_currentClub bodyText =
     (case exec id clubPattern bodyText of
        None \<Rightarrow> None
      | Some mt \<Rightarrow> Some (cleanText (group mt 1)))"

text \<open>
  \<open>/Current international:\s*([A-Za-z\<dots>\s]+?)\s*Caps\/Goals:\s*(\d+)\s*\/\s*(\d+)/im\<close>.
\<close>

definition intlPattern :: regexp where
  "intlPattern =
     regex_im (seqs [Lit (S ''Current international:''), Star space,
       Grp 1 (lazy_many1 (Cls False (latin @ space_ranges))),
       Star space, Lit (S ''Caps/Goals:''), Star space, Grp 2 (many1 digit),
       Star space, Lit (S ''/''), Star space, Grp 3 (many1 digit)])"

definition extract_international ::
  "(nat \<Rightarrow> nat) \<Rightarrow> jsstring \<Rightarrow> jsstring option \<times> number option \<times> number option" where
  "extract_international uc bodyText =
     (case exec uc intlPattern bodyText of
        None \<Rightarrow> (None, None, None)
      | Some intlMatch \<Rightarrow>
          (Some (cleanText (group intlMatch 1)),
           Some (parseInt10 (capture intlMatch 2)),
           Some (parseInt10 (capture intlMatch 3))))"

text \<open>
  The \<open>extract\<close> callback of \<open>scrapePlayerProfile\<close>.  The argument \<open>uc\<close> is the
  upper-casing of code units above 127 that the run-time uses for patterns with the
  \<open>i\<close> flag.
\<close>

definition bodyText_of :: "doc \<Rightarrow> jsstring" where
  "bodyText_of d = (case body d of None \<Rightarrow> [] | Some t \<Rightarrow> t)"

definition scrapePlayerProfile_extract :: "(nat \<Rightarrow> nat) \<Rightarrow> doc \<Rightarrow> Extracted" where
  "scrapePlayerProfile_extract uc d =
     (let bodyText = bodyText_of d;
          dob = extract_dob dobPatterns bodyText;
          citizens = extract_citizenship bodyText;
          intl = extract_international uc bodyText
      in \<lparr>x_imageUrl = extract_imageUrl (images d),
          x_shirtNumber = extract_shirtNumber (headline d),
          x_dateOfBirth = fst dob,
          x_age = snd dob,
          x_placeOfBirth = extract_placeOfBirth bodyText,
          x_citizenship = (if length citizens > 0 then Some citizens else None),
          x_height = extract_height uc bodyText,
          x_position = extract_position uc posPatterns bodyText,
          x_foot = extract_foot uc bodyText,
          x_currentClub = extract_currentClub bodyText,
          x_joined = extract_date uc joinedPattern bodyText,
          x_contractExpires = extract_date uc contractPattern bodyText,
          x_marketValue = extract_marketValue uc (marketValueWrappers d),
          x_agent = extract_agent uc bodyText,
          x_internationalTeam = fst intl,
          x_internationalCaps = fst (snd intl),
          x_internationalGoals = snd (snd intl)\<rparr>)"

definition assemble :: "BasicInfo \<Rightarrow> Team \<Rightarrow> Extracted \<Rightarrow> Profile" where
  "assemble basicInfo team x =
     \<lparr>f_id = b_id basicInfo,
      f_name = b_name basicInfo,
      f_url = b_url basicInfo,
      f_imageUrl = x_imageUrl x,
      f_localImagePath = None,
      f_team = t_name team,
      f_teamSlug = t_slug team,
      dateOfBirth = x_dateOfBirth x,
      age = x_age x,
      placeOfBirth = x_placeOfBirth x,
      citizenship = x_citizenship x,
      height = x_height x,
      position = x_position x,
      foot = x_foot x,
      currentClub = x_currentClub x,
      joined = x_joined x,
      contractExpires = x_contractExpires x,
      marketValue = x_marketValue x,
      shirtNumber = x_shirtNumber x,
      agent = x_agent x,
      internationalTeam = x_internationalTeam x,
      internationalCaps = x_internationalCaps x,
      internationalGoals = x_internationalGoals x\<rparr>"

section \<open>The outside world: pages, images and files\<close>

text \<open>
  A run reads pages and images from the network and writes files.  Each such step is
  recorded as an event, and whether it succeeds is decided by the world from the events
  so far, so that the same address may answer differently the second time.  A page that
  cannot be fetched or parsed, a network error and a failed file operation are the
  rejections and exceptions of the source; \<open>None\<close> or \<open>False\<close> here.
\<close>

record response =
  ok :: bool
  arrayBuffer :: "nat list option"

datatype payload =
    Bytes "nat list"
  | PlayersJson "Player list"
  | ProfilesJson "Profile list"

datatype event =
    Scrape jsstring
  | Fetch jsstring
  | Mkdir jsstring
  | WriteFile jsstring payload
  | LogError jsstring

datatype failure =
    ScrapeFailed jsstring
  | MkdirFailed jsstring
  | WriteFailed jsstring

record world =
  scrape :: "event list \<Rightarrow> jsstring \<Rightarrow> doc option"
  fetch :: "event list \<Rightarrow> jsstring \<Rightarrow> response option"
  mkdir_ok :: "event list \<Rightarrow> jsstring \<Rightarrow> bool"
  writeFile_ok :: "event list \<Rightarrow> jsstring \<Rightarrow> bool"
  PROJECT_ROOT :: jsstring

text \<open>\<open>path.join\<close> of two segments; the normalisation of \<open>.\<close> and \<open>..\<close> is left out.\<close>

definition join :: "jsstring \<Rightarrow> jsstring \<Rightarrow> jsstring" where
  "join a b = a @ S ''/'' @ b"

definition IMAGES_DIR :: "world \<Rightarrow> jsstring" where
  "IMAGES_DIR w = join (PROJECT_ROOT w) (S ''public/images/players'')"

definition DATA_DIR :: "world \<Rightarrow> jsstring" where
  "DATA_DIR w = join (PROJECT_ROOT w) (S ''data/players'')"

definition do_scrape :: "world \<Rightarrow> jsstring \<Rightarrow> event list \<Rightarrow> (failure + doc) \<times> event list" where
  "do_scrape w u ev =
     (case scrape w ev u of
        None \<Rightarrow> (Inl (ScrapeFailed u), ev @ [Scrape u])
      | Some d \<Rightarrow> (Inr d, ev @ [Scrape u]))"

definition do_mkdir :: "world \<Rightarrow> jsstring \<Rightarrow> event list \<Rightarrow> (failure + unit) \<times> event list" where
  "do_mkdir w path ev =
     (if mkdir_ok w ev path then (Inr (), ev @ [Mkdir path])
      else (Inl (MkdirFailed path), ev @ [Mkdir path]))"

definition do_writeFile ::
  "world \<Rightarrow> jsstring \<Rightarrow> payload \<Rightarrow> event list \<Rightarrow> (failure + unit) \<times> event list" where
  "do_writeFile w path content ev =
     (if writeFile_ok w ev path then (Inr (), ev @ [WriteFile path content])
      else (Inl (WriteFailed path), ev @ [WriteFile path content]))"

section \<open>Asset resolution\<close>

text \<open>\<open>saveImage\<close> of \<open>scrape-transfermarkt.ts\<close>.\<close>

definition saveImage ::
  "world \<Rightarrow> Player \<Rightarrow> nat list \<Rightarrow> event list \<Rightarrow> (failure + jsstring option) \<times> event list" where
  "saveImage w player buffer ev =
     (if length buffer < 1000 then (Inr None, ev)
      else
        let teamDir = join (IMAGES_DIR w) (p_teamSlug player) in
        case do_mkdir w teamDir ev of
          (Inl e, ev1) \<Rightarrow> (Inl e, ev1)
        | (Inr _, ev1) \<Rightarrow>
            let fileName = p_id player @ S ''.jpg'';
                filePath = join teamDir fileName in
            case do_writeFile w filePath (Bytes buffer) ev1 of
              (Inl e, ev2) \<Rightarrow> (Inl e, ev2)
            | (Inr _, ev2) \<Rightarrow>
                (Inr (Some (S ''public/images/players/'' @ p_teamSlug player @ S ''/'' @ fileName)),
                 ev2))"

text \<open>The \<open>catch\<close> of \<open>downloadPlayerImage\<close>: an exception becomes \<open>null\<close>.\<close>

definition caught :: "(failure + jsstring option) \<times> event list \<Rightarrow> jsstring option \<times> event list" where
  "caught r = (case r of (Inl e, ev) \<Rightarrow> (None, ev) | (Inr v, ev) \<Rightarrow> (v, ev))"

text \<open>\<open>downloadPlayerImage\<close> of \<open>scrape-transfermarkt.ts\<close>.\<close>

definition downloadPlayerImage ::
  "world \<Rightarrow> Player \<Rightarrow> event list \<Rightarrow> jsstring option \<times> event list" where
  "downloadPlayerImage w player ev =
     (case p_imageUrl player of
        None \<Rightarrow> (None, ev)
      | Some imageUrl \<Rightarrow>
          if imageUrl = [] then (None, ev)
          else
            case fetch w ev imageUrl of
              None \<Rightarrow> (None, ev @ [Fetch imageUrl])
            | Some response \<Rightarrow>
                let ev1 = ev @ [Fetch imageUrl] in
                if \<not> ok response
                then
                  let altUrl = replace_first (S ''.jpg'') (S ''-1.jpg'') imageUrl in
                  case fetch w ev1 altUrl of
                    None \<Rightarrow> (None, ev1 @ [Fetch altUrl])
                  | Some altResponse \<Rightarrow>
                      let ev2 = ev1 @ [Fetch altUrl] in
                      if \<not> ok altResponse then (None, ev2)
                      else
                        case arrayBuffer altResponse of
                          None \<Rightarrow> (None, ev2)
                        | Some buffer \<Rightarrow> caught (saveImage w player buffer ev2)
                else
                  case arrayBuffer response of
                    None \<Rightarrow> (None, ev1)
                  | Some buffer \<Rightarrow> caught (saveImage w player buffer ev1))"

text \<open>\<open>downloadPlayerImage\<close> of the profile scraper.\<close>

definition downloadProfileImage ::
  "world \<Rightarrow> Profile \<Rightarrow> event list \<Rightarrow> jsstring option \<times> event list" where
  "downloadProfileImage w player ev =
     (case f_imageUrl player of
        None \<Rightarrow> (None, ev)
      | Some imageUrl \<Rightarrow>
          if imageUrl = [] then (None, ev)
          else
            case fetch w ev imageUrl of
              None \<Rightarrow> (None, ev @ [Fetch imageUrl])
            | Some response \<Rightarrow>
                let ev1 = ev @ [Fetch imageUrl] in
                if \<not> ok response then (None, ev1)
                else
                  case arrayBuffer response of
                    None \<Rightarrow> (None, ev1)
                  | Some buffer \<Rightarrow>
                      if length buffer < 1000 then (None, ev1)
                      else
                        let teamDir = join (IMAGES_DIR w) (f_teamSlug player) in
                        case do_mkdir w teamDir ev1 of
                          (Inl e, ev2) \<Rightarrow> (None, ev2)
                        | (Inr _, ev2) \<Rightarrow>
                            let fileName = f_id player @ S ''.jpg'';
                                filePath = join teamDir fileName in
                            case do_writeFile w filePath (Bytes buffer) ev2 of
                              (Inl e, ev3) \<Rightarrow> (None, ev3)
                            | (Inr _, ev3) \<Rightarrow>
                                (Some (S ''public/images/players/'' @ f_teamSlug player @ S ''/''
                                       @ fileName), ev3))"

section \<open>The two runs\<close>

definition scrapeTeams :: "world \<Rightarrow> event list \<Rightarrow> (failure + Team list) \<times> event list" where
  "scrapeTeams w ev =
     (case do_scrape w PREMIER_LEAGUE_URL ev of
        (Inl e, ev1) \<Rightarrow> (Inl e, ev1)
      | (Inr d, ev1) \<Rightarrow> (Inr (take 20 (scrapeTeams_extract d)), ev1))"

definition squadUrl :: "Team \<Rightarrow> jsstring" where
  "squadUrl team = replace_first (S ''/startseite/'') (S ''/kader/'') (t_url team)"

definition scrapeTeamPlayers ::
  "world \<Rightarrow> Team \<Rightarrow> event list \<Rightarrow> (failure + Player list) \<times> event list" where
  "scrapeTeamPlayers w team ev =
     (case do_scrape w (squadUrl team) ev of
        (Inl e, ev1) \<Rightarrow> (Inl e, ev1)
      | (Inr d, ev1) \<Rightarrow> (Inr (scrapeTeamPlayers_extract team d), ev1))"

definition scrapeTeamPlayerList ::
  "world \<Rightarrow> Team \<Rightarrow> event list \<Rightarrow> (failure + BasicInfo list) \<times> event list" where
  "scrapeTeamPlayerList w team ev =
     (case do_scrape w (squadUrl team) ev of
        (Inl e, ev1) \<Rightarrow> (Inl e, ev1)
      | (Inr d, ev1) \<Rightarrow> (Inr (scrapeTeamPlayerList_extract d), ev1))"

definition scrapePlayerProfile ::
  "world \<Rightarrow> (nat \<Rightarrow> nat) \<Rightarrow> BasicInfo \<Rightarrow> Team \<Rightarrow> event list \<Rightarrow> (failure + Profile) \<times> event list" where
  "scrapePlayerProfile w uc basicInfo team ev =
     (case do_scrape w (b_url basicInfo) ev of
        (Inl e, ev1) \<Rightarrow> (Inl e, ev1)
      | (Inr d, ev1) \<Rightarrow> (Inr (assemble basicInfo team (scrapePlayerProfile_extract uc d)), ev1))"

datatype outcome = Completed | Aborted failure

text \<open>
  \<open>main\<close> of \<open>scrape-transfermarkt.ts\<close>.  Step 2, the loop over the teams with its
  \<open>try\<close> and \<open>catch\<close>:
\<close>

fun players_of_teams ::
  "world \<Rightarrow> Team list \<Rightarrow> Player list \<Rightarrow> event list \<Rightarrow> Player list \<times> event list" where
  "players_of_teams w [] allPlayers ev = (allPlayers, ev)"
| "players_of_teams w (team # teams) allPlayers ev =
     (case scrapeTeamPlayers w team ev of
        (Inr players, ev1) \<Rightarrow> players_of_teams w teams (allPlayers @ players) ev1
      | (Inl error, ev1) \<Rightarrow> players_of_teams w teams allPlayers (ev1 @ [LogError (t_name team)]))"

text \<open>Step 3, the loop over the players that downloads the images:\<close>

fun download_images :: "world \<Rightarrow> Player list \<Rightarrow> event list \<Rightarrow> Player list \<times> event list" where
  "download_images w [] ev = ([], ev)"
| "download_images w (player # players) ev =
     (case downloadPlayerImage w player ev of
        (localPath, ev1) \<Rightarrow>
          (case download_images w players ev1 of
             (players', ev2) \<Rightarrow>
               ((if localPath \<noteq> None \<and> localPath \<noteq> Some []
                 then player\<lparr>p_localImagePath := localPath\<rparr> else player) # players', ev2)))"

text \<open>Step 4, the \<open>Map\<close> from team slug to players, in insertion order:\<close>

fun group_add :: "jsstring \<Rightarrow> 'a \<Rightarrow> (jsstring \<times> 'a list) list \<Rightarrow> (jsstring \<times> 'a list) list" where
  "group_add k v [] = [(k, [v])]"
| "group_add k v ((k', vs) # kvs) =
     (if k = k' then (k', vs @ [v]) # kvs else (k', vs) # group_add k v kvs)"

definition playersByTeam :: "('a \<Rightarrow> jsstring) \<Rightarrow> 'a list \<Rightarrow> (jsstring \<times> 'a list) list" where
  "playersByTeam slug_of allPlayers = foldl (\<lambda>mp player. group_add (slug_of player) player mp) [] allPlayers"

fun write_teams ::
  "world \<Rightarrow> ('a list \<Rightarrow> payload) \<Rightarrow> (jsstring \<times> 'a list) list \<Rightarrow> event list \<Rightarrow> outcome \<times> event list" where
  "write_teams w enc [] ev = (Completed, ev)"
| "write_teams w enc ((teamSlug, players) # kvs) ev =
     (case do_writeFile w (join (DATA_DIR w) (teamSlug @ S ''.json'')) (enc players) ev of
        (Inl e, ev1) \<Rightarrow> (Aborted e, ev1)
      | (Inr _, ev1) \<Rightarrow> write_teams w enc kvs ev1)"

definition main :: "world \<Rightarrow> outcome \<times> event list" where
  "main w =
     (case do_mkdir w (IMAGES_DIR w) [] of
        (Inl e, ev1) \<Rightarrow> (Aborted e, ev1)
      | (Inr _, ev1) \<Rightarrow>
     (case do_mkdir w (DATA_DIR w) ev1 of
        (Inl e, ev2) \<Rightarrow> (Aborted e, ev2)
      | (Inr _, ev2) \<Rightarrow>
     (case scrapeTeams w ev2 of
        (Inl e, ev3) \<Rightarrow> (Aborted e, ev3)
      | (Inr teams, ev3) \<Rightarrow>
     (case players_of_teams w teams [] ev3 of
        (found, ev4) \<Rightarrow>
     (case download_images w found ev4 of
        (allPlayers, ev5) \<Rightarrow>
     (case do_writeFile w (join (DATA_DIR w) (S ''premier-league.json'')) (PlayersJson allPlayers) ev5 of
        (Inl e, ev6) \<Rightarrow> (Aborted e, ev6)
      | (Inr _, ev6) \<Rightarrow>
          write_teams w PlayersJson (playersByTeam p_teamSlug allPlayers) ev6))))))"

text \<open>
  \<open>main\<close> of the profile scraper.  Step 2, the loop over the teams, which has no
  \<open>try\<close>:
\<close>

fun player_lists ::
  "world \<Rightarrow> Team list \<Rightarrow> (Team \<times> BasicInfo list) list \<Rightarrow> event list \<Rightarrow>
   (failure + (Team \<times> BasicInfo list) list) \<times> event list" where
  "player_lists w [] allPlayerBasicInfo ev = (Inr allPlayerBasicInfo, ev)"
| "player_lists w (team # teams) allPlayerBasicInfo ev =
     (case scrapeTeamPlayerList w team ev of
        (Inl e, ev1) \<Rightarrow> (Inl e, ev1)
      | (Inr players, ev1) \<Rightarrow> player_lists w teams (allPlayerBasicInfo @ [(team, players)]) ev1)"

text \<open>Step 3, the two nested loops over the teams and their players:\<close>

fun profiles_of_players ::
  "world \<Rightarrow> (nat \<Rightarrow> nat) \<Rightarrow> Team \<Rightarrow> BasicInfo list \<Rightarrow> Profile list \<Rightarrow> event list \<Rightarrow>
   Profile list \<times> event list" where
  "profiles_of_players w uc team [] allPlayers ev = (allPlayers, ev)"
| "profiles_of_players w uc team (basicInfo # players) allPlayers ev =
     (case scrapePlayerProfile w uc basicInfo team ev of
        (Inr player, ev1) \<Rightarrow> profiles_of_players w uc team players (allPlayers @ [player]) ev1
      | (Inl error, ev1) \<Rightarrow>
          profiles_of_players w uc team players allPlayers (ev1 @ [LogError (b_name basicInfo)]))"

fun profiles_of_teams ::
  "world \<Rightarrow> (nat \<Rightarrow> nat) \<Rightarrow> (Team \<times> BasicInfo list) list \<Rightarrow> Profile list \<Rightarrow> event list \<Rightarrow>
   Profile list \<times> event list" where
  "profiles_of_teams w uc [] allPlayers ev = (allPlayers, ev)"
| "profiles_of_teams w uc ((team, players) # others) allPlayers ev =
     (case profiles_of_players w uc team players allPlayers ev of
        (allPlayers', ev1) \<Rightarrow> profiles_of_teams w uc others allPlayers' ev1)"

fun download_profile_images ::
  "world \<Rightarrow> Profile list \<Rightarrow> event list \<Rightarrow> Profile list \<times> event list" where
  "download_profile_images w [] ev = ([], ev)"
| "download_profile_images w (player # players) ev =
     (case downloadProfileImage w player ev of
        (localPath, ev1) \<Rightarrow>
          (case download_profile_images w players ev1 of
             (players', ev2) \<Rightarrow>
               ((if localPath \<noteq> None \<and> localPath \<noteq> Some []
                 then player\<lparr>f_localImagePath := localPath\<rparr> else player) # players', ev2)))"

definition main_profiles :: "world \<Rightarrow> (nat \<Rightarrow> nat) \<Rightarrow> outcome \<times> event list" where
  "main_profiles w uc =
     (case do_mkdir w (IMAGES_DIR w) [] of
        (Inl e, ev1) \<Rightarrow> (Aborted e, ev1)
      | (Inr _, ev1) \<Rightarrow>
     (case do_mkdir w (DATA_DIR w) ev1 of
        (Inl e, ev2) \<Rightarrow> (Aborted e, ev2)
      | (Inr _, ev2) \<Rightarrow>
     (case scrapeTeams w ev2 of
        (Inl e, ev3) \<Rightarrow> (Aborted e, ev3)
      | (Inr teams, ev3) \<Rightarrow>
     (case player_lists w teams [] ev3 of
        (Inl e, ev4) \<Rightarrow> (Aborted e, ev4)
      | (Inr allPlayerBasicInfo, ev4) \<Rightarrow>
     (case profiles_of_teams w uc allPlayerBasicInfo [] ev4 of
        (scraped, ev5) \<Rightarrow>
     (case download_profile_images w scraped ev5 of
        (allPlayers, ev6) \<Rightarrow>
     (case do_writeFile w (join (DATA_DIR w) (S ''premier-league.json'')) (ProfilesJson allPlayers) ev6 of
        (Inl e, ev7) \<Rightarrow> (Aborted e, ev7)
      | (Inr _, ev7) \<Rightarrow>
          write_teams w ProfilesJson (playersByTeam f_teamSlug allPlayers) ev7)))))))"

section \<open>Example pages\<close>

text \<open>Concrete documents and worlds, on which the theorems below are instantiated.\<close>

definition mv_page :: doc where
  "mv_page = \<lparr>anchors = [], images = [], headline = None,
     marketValueWrappers = [Some (S ''Market value''), Some (euro @ S ''75.00m market value''),
       Some (euro @ S ''1.00m'')],
     body = None\<rparr>"


definition page_of_body :: "jsstring \<Rightarrow> doc" where
  "page_of_body t = \<lparr>anchors = [], images = [], headline = None, marketValueWrappers = [],
     body = Some t\<rparr>"

definition a_player :: BasicInfo where
  "a_player = \<lparr>b_id = S ''325443'', b_name = S ''Viktor'',
     b_url = S ''https://www.transfermarkt.com/viktor/profil/spieler/325443''\<rparr>"

definition a_team :: Team where
  "a_team = \<lparr>t_name = S ''Arsenal FC'',
     t_url = S ''https://www.transfermarkt.com/fc-arsenal/startseite/verein/11'',
     t_slug = S ''fc-arsenal'', t_id = S ''11''\<rparr>"

text \<open>A body text with the date of birth once, and one with an earlier date of birth.\<close>

definition dob_once :: doc where
  "dob_once = page_of_body (S ''Viktor  '' @ S ''Date of birth/Age: 15/08/1998 (27)''
     @ S '' Place of birth: Stockholm'')"

definition dob_twice :: doc where
  "dob_twice = page_of_body (S ''Date of birth/Age: 01/01/2000 (25) ''
     @ S ''Date of birth/Age: 15/08/1998 (27)'' @ S '' Place of birth: Stockholm'')"

text \<open>
  Body texts with the international career: once; after an earlier one; with other text
  between the team and the numbers; with a further digit after the goals.
\<close>

definition intl_once :: doc where
  "intl_once = page_of_body (S ''Viktor  '' @ S ''Current international: Sweden'' @ [10, 32]
     @ S ''Caps/Goals: 30 / 15'' @ S '' Market'')"

definition intl_earlier :: doc where
  "intl_earlier = page_of_body (S ''Current international: Norway Caps/Goals: 3 / 1 ''
     @ S ''Current international: Sweden'' @ S '' '' @ S ''Caps/Goals: 30 / 15'' @ S '' '')"

definition intl_u21 :: doc where
  "intl_u21 = page_of_body (S ''Current international: Sweden'' @ S '' U21 ''
     @ S ''Caps/Goals: 30 / 15'')"

definition intl_150 :: doc where
  "intl_150 = page_of_body (S ''Current international: Sweden'' @ S '' ''
     @ S ''Caps/Goals: 30 / 15'' @ S ''0'')"

text \<open>
  Body texts without a citizenship, with a citizenship of one letter, and with two
  citizenships.
\<close>

definition cit_absent :: doc where
  "cit_absent = page_of_body (S ''Nationality: Sweden'')"

definition cit_short :: doc where
  "cit_short = page_of_body (S ''Citizenship: A  B'')"

definition cit_long :: doc where
  "cit_long = page_of_body (S ''Citizenship: Sweden  Hungary  Height: 1,87 m'')"

definition cit_short_match :: match_result where
  "cit_short_match = \<lparr>index = 0, groups = [Some (S ''Citizenship: A  ''), Some (S ''A'')],
     after = S ''B''\<rparr>"

definition cit_long_match :: match_result where
  "cit_long_match = \<lparr>index = 0, groups = [Some (S ''Citizenship: Sweden  ''), Some (S ''Sweden'')],
     after = S ''Hungary  Height: 1,87 m''\<rparr>"

section \<open>Evaluation\<close>

text \<open>The definitions that the simplifier unfolds to run a pattern on a text.\<close>

lemmas classes = in_ranges_def space_ranges_def digit_ranges_def line_terminator_ranges_def
  isSpace_def isDigit_def latin_def ascii_letters_def

lemmas engine = S_def step_def canonicalize_def many1_def lazy_many1_def
  space_def digit_def two_spaces_def date_def match_at_def ngroups_def exec_def test_def
  group_def capture_def regex_def regex_i_def regex_m_def regex_im_def

lemmas methods = trim_def replace_all_def replace_rx_def split_rx_def split_def

section \<open>Matching a class with and without the \<open>i\<close> flag\<close>

text \<open>
  Without the flag a class is its ranges.  With the flag a code unit below 128 matches
  a class exactly when it, or its other case, lies in the ranges: a code unit above 127
  is never canonicalised to one below 128.
\<close>

lemma canonicalize_ge: "128 \<le> a \<Longrightarrow> 128 \<le> canonicalize uc True a"
  by (simp add: canonicalize_def Let_def)

lemma canonicalize_ascii: "a < 128 \<Longrightarrow> canonicalize uc True a = (if 97 \<le> a \<and> a \<le> 122 then a - 32 else a)"
  by (simp add: canonicalize_def)

lemma canonicalize_lt: "a < 128 \<Longrightarrow> canonicalize uc True a < 128"
  by (simp add: canonicalize_ascii) arith

lemma canonicalize_ascii_eq:
  assumes c: "ch < 128"
  shows "canonicalize uc True a = canonicalize uc True ch \<longleftrightarrow>
     (a = ch \<or> (97 \<le> ch \<and> ch \<le> 122 \<and> a = ch - 32) \<or> (65 \<le> ch \<and> ch \<le> 90 \<and> a = ch + 32))"
proof (cases "a < 128")
  case True
  with c show ?thesis by (simp add: canonicalize_ascii) arith
next
  case False
  then have "128 \<le> canonicalize uc True a" by (simp add: canonicalize_ge)
  moreover from c have "canonicalize uc True ch < 128" by (rule canonicalize_lt)
  ultimately have "canonicalize uc True a \<noteq> canonicalize uc True ch" by arith
  moreover from False c have "\<not> (a = ch \<or> (97 \<le> ch \<and> ch \<le> 122 \<and> a = ch - 32) \<or> (65 \<le> ch \<and> ch \<le> 90 \<and> a = ch + 32))"
    by arith
  ultimately show ?thesis by blast
qed

lemma cls_match_cs: "cls_match uc False neg rs ch = (in_ranges rs ch \<noteq> neg)"
  by (simp add: cls_match_def)

lemma in_ranges_iff: "in_ranges rs c \<longleftrightarrow> (\<exists>(lo, hi) \<in> set rs. lo \<le> c \<and> c \<le> hi)"
  by (simp add: in_ranges_def list_ex_iff)

lemma list_ex_upt:
  "list_ex P [lo ..< Suc hi] \<longleftrightarrow> (\<exists>a. lo \<le> a \<and> a \<le> hi \<and> P a)"
proof -
  have "list_ex P [lo ..< Suc hi] \<longleftrightarrow> (\<exists>a \<in> {lo ..< Suc hi}. P a)"
    unfolding list_ex_iff by (simp only: set_upt)
  also have "\<dots> \<longleftrightarrow> (\<exists>a. lo \<le> a \<and> a \<le> hi \<and> P a)"
    by (simp only: atLeastLessThan_iff less_Suc_eq_le Bex_def conj_assoc)
  finally show ?thesis .
qed

lemma range_pick:
  "(\<exists>a. lo \<le> a \<and> a \<le> hi \<and> (a = (c::nat) \<or> (A \<and> a = d) \<or> (B \<and> a = e))) \<longleftrightarrow>
   ((lo \<le> c \<and> c \<le> hi) \<or> (A \<and> lo \<le> d \<and> d \<le> hi) \<or> (B \<and> lo \<le> e \<and> e \<le> hi))"
  by blast

lemma cls_found_ascii:
  assumes c: "ch < 128"
  shows "list_ex (\<lambda>(lo, hi). list_ex (\<lambda>a. canonicalize uc True a = canonicalize uc True ch) [lo ..< Suc hi]) rs
     \<longleftrightarrow> (in_ranges rs ch \<or> (97 \<le> ch \<and> ch \<le> 122 \<and> in_ranges rs (ch - 32))
        \<or> (65 \<le> ch \<and> ch \<le> 90 \<and> in_ranges rs (ch + 32)))"
  unfolding in_ranges_iff list_ex_upt canonicalize_ascii_eq [OF c] range_pick
  unfolding list_ex_iff
  by blast

lemma cls_match_ascii:
  assumes c: "ch < 128"
  shows "cls_match uc True neg rs ch =
     ((in_ranges rs ch \<or> (97 \<le> ch \<and> ch \<le> 122 \<and> in_ranges rs (ch - 32))
        \<or> (65 \<le> ch \<and> ch \<le> 90 \<and> in_ranges rs (ch + 32))) \<noteq> neg)"
  unfolding cls_match_def Let_def
  by (simp only: cls_found_ascii [OF c] if_True)

section \<open>Running a pattern on a text that is partly unknown\<close>

text \<open>
  A greedy star over a class takes a whole run of code units of the class when the
  pattern after it matches behind the run; the rules below let the simplifier run a
  pattern over a text with such a run, an unknown end or an unknown beginning.
\<close>

lemma cls_match_self: "in_ranges rs c \<Longrightarrow> cls_match uc ic False rs c"
proof (cases ic)
  case False
  assume "in_ranges rs c"
  with False show ?thesis by (simp add: cls_match_cs)
next
  case True
  assume "in_ranges rs c"
  then obtain lo hi where r: "(lo, hi) \<in> set rs" "lo \<le> c" "c \<le> hi"
    unfolding in_ranges_iff by blast
  from r(2,3) have "list_ex (\<lambda>a. canonicalize uc True a = canonicalize uc True c) [lo ..< Suc hi]"
    unfolding list_ex_upt by blast
  with r(1) have "list_ex (\<lambda>(lo, hi). list_ex (\<lambda>a. canonicalize uc True a = canonicalize uc True c) [lo ..< Suc hi]) rs"
    unfolding list_ex_iff [of _ rs] by blast
  with True show ?thesis unfolding cls_match_def Let_def by (simp only: if_True) simp
qed

lemma star_cls_nil:
  "m uc ic ml (Star (Cls neg rs)) k \<lparr>behind = b, rest = [], captures = cs\<rparr>
   = k \<lparr>behind = b, rest = [], captures = cs\<rparr>"
  by (simp add: step_def)

lemma star_cls_cons:
  "m uc ic ml (Star (Cls neg rs)) k \<lparr>behind = b, rest = c # s, captures = cs\<rparr> =
     (if cls_match uc ic neg rs c
      then (case m uc ic ml (Star (Cls neg rs)) k \<lparr>behind = c # b, rest = s, captures = cs\<rparr> of
              Some z \<Rightarrow> Some z
            | None \<Rightarrow> k \<lparr>behind = b, rest = c # s, captures = cs\<rparr>)
      else k \<lparr>behind = b, rest = c # s, captures = cs\<rparr>)"
  by (simp add: step_def)

lemma star_cls_run:
  assumes "\<forall>c \<in> set ws. in_ranges rs c"
    and "\<not> cls_match uc ic False rs t"
    and "k \<lparr>behind = rev ws @ b, rest = t # s, captures = cs\<rparr> \<noteq> None"
  shows "m uc ic ml (Star (Cls False rs)) k \<lparr>behind = b, rest = ws @ t # s, captures = cs\<rparr>
         = k \<lparr>behind = rev ws @ b, rest = t # s, captures = cs\<rparr>"
  using assms
proof (induction ws arbitrary: b)
  case Nil
  then show ?case by (simp add: star_cls_cons del: m.simps)
next
  case (Cons c ws)
  from Cons.prems(1) have c: "cls_match uc ic False rs c" by (simp add: cls_match_self)
  from Cons.prems(3) have k: "k \<lparr>behind = rev ws @ c # b, rest = t # s, captures = cs\<rparr> \<noteq> None"
    by simp
  from Cons.prems(1) have "\<forall>c \<in> set ws. in_ranges rs c" by simp
  from Cons.IH [OF this Cons.prems(2) k]
  have ih: "m uc ic ml (Star (Cls False rs)) k \<lparr>behind = c # b, rest = ws @ t # s, captures = cs\<rparr>
            = k \<lparr>behind = rev ws @ c # b, rest = t # s, captures = cs\<rparr>" .
  with k obtain z where z: "m uc ic ml (Star (Cls False rs)) k \<lparr>behind = c # b, rest = ws @ t # s, captures = cs\<rparr> = Some z"
    by auto
  have "m uc ic ml (Star (Cls False rs)) k \<lparr>behind = b, rest = (c # ws) @ t # s, captures = cs\<rparr> = Some z"
    by (simp add: star_cls_cons c z del: m.simps)
  with z ih show ?case by simp
qed

lemma cls_match_digit: "cls_match uc ic False digit_ranges c = isDigit c"
proof (cases ic)
  case False
  then show ?thesis by (simp add: cls_match_cs isDigit_def)
next
  case True
  show ?thesis
  proof (cases "c < 128")
    case lt: True
    from cls_match_ascii [OF lt, of uc False digit_ranges] True show ?thesis
      by (auto simp: isDigit_def in_ranges_def digit_ranges_def)
  next
    case ge: False
    have "\<not> list_ex (\<lambda>(lo, hi). list_ex (\<lambda>a. canonicalize uc True a = canonicalize uc True c) [lo ..< Suc hi]) digit_ranges"
    proof
      assume "list_ex (\<lambda>(lo, hi). list_ex (\<lambda>a. canonicalize uc True a = canonicalize uc True c) [lo ..< Suc hi]) digit_ranges"
      then obtain a where a: "48 \<le> a" "a \<le> 57" "canonicalize uc True a = canonicalize uc True c"
        unfolding list_ex_upt digit_ranges_def by auto
      from a have "canonicalize uc True a < 128" by (intro canonicalize_lt) simp
      moreover from ge have "128 \<le> canonicalize uc True c" by (intro canonicalize_ge) simp
      ultimately show False using a(3) by simp
    qed
    moreover from ge have "\<not> isDigit c" by (simp add: isDigit_def in_ranges_def digit_ranges_def)
    ultimately show ?thesis using True unfolding cls_match_def Let_def by simp
  qed
qed

lemma cls_match_digit_raw: "cls_match uc ic False [(48, 57)] c = (48 \<le> c \<and> c \<le> 57)"
  using cls_match_digit [of uc ic c] by (simp add: isDigit_def in_ranges_def digit_ranges_def)

lemma replicate_numeral: "replicate (numeral v) x = x # replicate (numeral v - 1) x"
  by (simp add: numeral_eq_Suc)

lemma list_update_Cons_numeral: "(x # xs)[numeral v := y] = x # xs[numeral v - 1 := y]"
  by (simp add: numeral_eq_Suc)

lemma take_Cons_numeral_add: "take (numeral v + n) (x # xs) = x # take (numeral v - 1 + n) xs"
  by (simp add: numeral_eq_Suc)

lemmas star_rules = star_cls_nil star_cls_cons replicate_numeral list_update_Cons_numeral
  take_Cons_numeral_add

text \<open>
  \<open>exec\<close> passes over a beginning of the text in which no match starts.
\<close>

lemma match_at_index: "match_at uc rx bef s = Some r \<Longrightarrow> index r = length bef"
  by (auto simp: match_at_def split: option.splits)

lemma exec_from_skip:
  "(\<And>r. exec_from uc rx bef (xs @ ys) = Some r \<Longrightarrow> length bef + length xs \<le> index r) \<Longrightarrow>
   exec_from uc rx bef (xs @ ys) = exec_from uc rx (rev xs @ bef) ys"
proof (induction xs arbitrary: bef)
  case Nil
  show ?case by simp
next
  case (Cons x xs)
  have none: "match_at uc rx bef (x # xs @ ys) = None"
  proof (cases "match_at uc rx bef (x # xs @ ys)")
    case None
    then show ?thesis .
  next
    case (Some r)
    then have "exec_from uc rx bef ((x # xs) @ ys) = Some r" by simp
    then have "length bef + length (x # xs) \<le> index r" by (rule Cons.prems)
    moreover have "index r = length bef" using Some by (rule match_at_index)
    ultimately show ?thesis by simp
  qed
  then have step: "exec_from uc rx bef ((x # xs) @ ys) = exec_from uc rx (x # bef) (xs @ ys)"
    by simp
  have "exec_from uc rx (x # bef) (xs @ ys) = exec_from uc rx (rev xs @ x # bef) ys"
  proof (rule Cons.IH)
    fix r
    assume "exec_from uc rx (x # bef) (xs @ ys) = Some r"
    with step have "exec_from uc rx bef ((x # xs) @ ys) = Some r" by simp
    then have "length bef + length (x # xs) \<le> index r" by (rule Cons.prems)
    then show "length (x # bef) + length xs \<le> index r" by simp
  qed
  with step show ?case by simp
qed

section \<open>Text Normalizer\<close>

lemma cleanText_example:
  "cleanText (Some (S ''A&amp;nbsp;&nbsp;B'')) = S ''A&nbsp; B''"
  by (simp add: cleanText_def classes engine methods cls_match_cs)

text \<open>
  C1 (as the code has it).  The normaliser replaces \<open>&nbsp;\<close> first and \<open>&amp;\<close> second,
  each over the whole text.  In \<open>A&amp;nbsp;&nbsp;B\<close> the first pass finds one
  \<open>&nbsp;\<close>, the one before \<open>B\<close>; the second pass turns \<open>&amp;\<close> into \<open>&\<close>, which leaves
  the text \<open>A&nbsp; B\<close>: the entity that the second pass forms is not decoded again.
\<close>

theorem C1_cleanText_result:
  "cleanText (Some (S ''A&amp;nbsp;&nbsp;B'')) = S ''A&nbsp; B''"
  by (rule cleanText_example)

text \<open>C1 as stated fails: the result is not \<open>A& B\<close>.\<close>

theorem C1_counterexample:
  "cleanText (Some (S ''A&amp;nbsp;&nbsp;B'')) \<noteq> S ''A& B''"
  by (simp add: cleanText_example) (simp add: S_def)

section \<open>Market value\<close>

lemma mv_text:
  "cleanText (Some (euro @ S ''75.00m market value'')) = euro @ S ''75.00m market value''"
  by (simp add: cleanText_def euro_def classes engine methods cls_match_cs)

lemma mv_exec:
  "exec uc marketValuePattern (euro @ S ''75.00m market value'') =
   Some \<lparr>index = 0, groups = [Some (euro @ S ''75.00m''), Some (euro @ S ''75.00m'')],
         after = S '' market value''\<rparr>"
  by (simp add: marketValuePattern_def euro_def classes engine cls_match_ascii)

lemma mv_first:
  "extract_marketValue uc (Some (euro @ S ''75.00m market value'') # els) = Some (euro @ S ''75.00m'')"
proof -
  have "str_includes euro (euro @ S ''75.00m market value'')"
    by (simp add: euro_def S_def)
  then show ?thesis
    by (simp add: mv_text mv_exec group_def) (simp add: euro_def)
qed

lemma mv_skip:
  "\<forall>el \<in> set blanks. \<not> str_includes euro (cleanText el) \<Longrightarrow>
   extract_marketValue uc (blanks @ els) = extract_marketValue uc els"
  by (induction blanks) simp_all

text \<open>
  C9.  The market value anchors are read in document order; those whose normalised text
  has no euro sign are passed over.  When the first anchor with a euro sign has the text
  \<open>\<euro>75.00m market value\<close>, the market value of the player record is \<open>\<euro>75.00m\<close>: the
  text after the amount is not part of the match, and the anchors after this one (\<open>els\<close>,
  arbitrary) are not read.  This holds for every upper-casing table \<open>uc\<close> of the run-time.
\<close>

theorem C9_marketValue:
  assumes "marketValueWrappers d = blanks @ Some (euro @ S ''75.00m market value'') # els"
    and "\<forall>el \<in> set blanks. \<not> str_includes euro (cleanText el)"
  shows "marketValue (assemble basicInfo team (scrapePlayerProfile_extract uc d))
         = Some (euro @ S ''75.00m'')"
  using assms
  by (simp add: assemble_def scrapePlayerProfile_extract_def Let_def mv_skip mv_first
           del: extract_marketValue.simps)

theorem C9_marketValue_witness:
  "marketValueWrappers mv_page
     = [Some (S ''Market value'')] @ Some (euro @ S ''75.00m market value'') # [Some (euro @ S ''1.00m'')]
   \<and> \<not> str_includes euro (cleanText (Some (S ''Market value'')))
   \<and> marketValue (assemble a_player a_team (scrapePlayerProfile_extract id mv_page))
       = Some (euro @ S ''75.00m'')"
proof -
  have h1: "marketValueWrappers mv_page
     = [Some (S ''Market value'')] @ Some (euro @ S ''75.00m market value'') # [Some (euro @ S ''1.00m'')]"
    by (simp add: mv_page_def)
  have h: "\<not> str_includes euro (cleanText (Some (S ''Market value'')))"
    by (simp add: cleanText_def euro_def classes engine methods cls_match_cs)
  then have h2: "\<forall>el \<in> set [Some (S ''Market value'')]. \<not> str_includes euro (cleanText el)"
    by simp
  from h1 h C9_marketValue [OF h1 h2, of a_player a_team id] show ?thesis
    by (intro conjI)
qed

lemma exec_from_hit: "match_at uc rx bef s = Some r \<Longrightarrow> exec_from uc rx bef s = Some r"
  by (cases s) simp_all

lemma exec_at:
  assumes first: "\<forall>r. exec uc rx (pre @ s) = Some r \<longrightarrow> length pre \<le> index r"
    and hit: "match_at uc rx (rev pre) s = Some r0"
  shows "exec uc rx (pre @ s) = Some r0"
proof -
  have "exec_from uc rx [] (pre @ s) = exec_from uc rx (rev pre @ []) s"
    by (rule exec_from_skip) (use first in \<open>simp add: exec_def\<close>)
  also have "\<dots> = Some r0"
    using hit by (simp add: exec_from_hit)
  finally show ?thesis by (simp add: exec_def)
qed

section \<open>Date of birth and age\<close>

lemma dob_at:
  "match_at id dobAgePattern bef (S ''Date of birth/Age: 15/08/1998 (27)'' @ post) =
   Some \<lparr>index = length bef,
         groups = [Some (S ''Date of birth/Age: 15/08/1998 (27)''), Some (S ''15/08/1998''),
                   Some (S ''27'')],
         after = post\<rparr>"
  by (simp add: dobAgePattern_def classes engine cls_match_cs)

lemma parseInt_27: "parseInt10 (S ''27'') = Num 27"
  by (simp add: parseInt10_def parseInt_def digits_value_def classes S_def)

lemma parseInt_25: "parseInt10 (S ''25'') = Num 25"
  by (simp add: parseInt10_def parseInt_def digits_value_def classes S_def)

lemma dob_once_exec:
  "exec id dobAgePattern (S ''Viktor  '' @ S ''Date of birth/Age: 15/08/1998 (27)''
     @ S '' Place of birth: Stockholm'')
   = Some \<lparr>index = 8,
       groups = [Some (S ''Date of birth/Age: 15/08/1998 (27)''), Some (S ''15/08/1998''),
                 Some (S ''27'')],
       after = S '' Place of birth: Stockholm''\<rparr>"
  by (simp add: dobAgePattern_def classes engine cls_match_cs)

lemma dob_twice_exec:
  "exec id dobAgePattern (S ''Date of birth/Age: 01/01/2000 (25) ''
     @ S ''Date of birth/Age: 15/08/1998 (27)'' @ S '' Place of birth: Stockholm'')
   = Some \<lparr>index = 0,
       groups = [Some (S ''Date of birth/Age: 01/01/2000 (25)''), Some (S ''01/01/2000''),
                 Some (S ''25'')],
       after = S '' Date of birth/Age: 15/08/1998 (27) Place of birth: Stockholm''\<rparr>"
  by (simp add: dobAgePattern_def classes engine cls_match_cs)

text \<open>
  C7 (as the code has it).  \<open>match\<close> returns the first match of the rule in the body
  text.  For every body text \<open>pre @ fragment @ post\<close> in which no match of the rule
  \<open>/Date of birth\/Age:\s*(\d{2}\/\d{2}\/\d{4})\s*\((\d+)\)/\<close> begins before the fragment
  \<open>Date of birth/Age: 15/08/1998 (27)\<close>, the record has the date of birth
  \<open>15/08/1998\<close> and the age 27, whatever comes after the fragment.
\<close>

theorem C7_dateOfBirth_age:
  assumes b: "body d = Some (pre @ S ''Date of birth/Age: 15/08/1998 (27)'' @ post)"
    and first: "\<forall>r. exec id dobAgePattern (pre @ S ''Date of birth/Age: 15/08/1998 (27)'' @ post)
                      = Some r \<longrightarrow> length pre \<le> index r"
  shows "dateOfBirth (assemble basicInfo team (scrapePlayerProfile_extract uc d))
           = Some (S ''15/08/1998'')
       \<and> age (assemble basicInfo team (scrapePlayerProfile_extract uc d)) = Some (Num 27)"
proof -
  let ?F = "S ''Date of birth/Age: 15/08/1998 (27)''"
  have "exec id dobAgePattern (pre @ ?F @ post) =
     Some \<lparr>index = length (rev pre),
         groups = [Some ?F, Some (S ''15/08/1998''), Some (S ''27'')], after = post\<rparr>"
    using first dob_at by (rule exec_at)
  moreover have "S ''27'' \<noteq> []" by (simp add: S_def)
  ultimately show ?thesis using b
    by (simp add: assemble_def scrapePlayerProfile_extract_def bodyText_of_def Let_def
          dobPatterns_def group_def parseInt_27)
qed

theorem C7_dateOfBirth_age_witness:
  "body dob_once = Some (S ''Viktor  '' @ S ''Date of birth/Age: 15/08/1998 (27)''
       @ S '' Place of birth: Stockholm'')
   \<and> exec id dobAgePattern (S ''Viktor  '' @ S ''Date of birth/Age: 15/08/1998 (27)''
         @ S '' Place of birth: Stockholm'')
       = Some \<lparr>index = 8,
           groups = [Some (S ''Date of birth/Age: 15/08/1998 (27)''), Some (S ''15/08/1998''),
                     Some (S ''27'')],
           after = S '' Place of birth: Stockholm''\<rparr>
   \<and> length (S ''Viktor  '') = 8
   \<and> dateOfBirth (assemble a_player a_team (scrapePlayerProfile_extract id dob_once))
       = Some (S ''15/08/1998'')
   \<and> age (assemble a_player a_team (scrapePlayerProfile_extract id dob_once)) = Some (Num 27)"
proof -
  have h1: "body dob_once = Some (S ''Viktor  '' @ S ''Date of birth/Age: 15/08/1998 (27)''
       @ S '' Place of birth: Stockholm'')"
    by (simp add: dob_once_def page_of_body_def)
  have l: "length (S ''Viktor  '') = 8"
    by (simp add: S_def)
  have h2: "\<forall>r. exec id dobAgePattern (S ''Viktor  '' @ S ''Date of birth/Age: 15/08/1998 (27)''
              @ S '' Place of birth: Stockholm'') = Some r \<longrightarrow> length (S ''Viktor  '') \<le> index r"
    using dob_once_exec by (simp add: S_def)
  note t = C7_dateOfBirth_age [OF h1 h2, of a_player a_team id]
  from h1 dob_once_exec l t [THEN conjunct1] t [THEN conjunct2] show ?thesis
    by (intro conjI)
qed

text \<open>
  C7 as stated fails: this body text contains the fragment, after an earlier date of
  birth and age, and the record has the earlier ones.
\<close>

theorem C7_counterexample:
  "body dob_twice = Some (S ''Date of birth/Age: 01/01/2000 (25) ''
       @ S ''Date of birth/Age: 15/08/1998 (27)'' @ S '' Place of birth: Stockholm'')
   \<and> dateOfBirth (assemble a_player a_team (scrapePlayerProfile_extract id dob_twice))
       = Some (S ''01/01/2000'')
   \<and> age (assemble a_player a_team (scrapePlayerProfile_extract id dob_twice)) = Some (Num 25)
   \<and> S ''01/01/2000'' \<noteq> S ''15/08/1998''"
proof -
  have "S ''25'' \<noteq> []" and "S ''01/01/2000'' \<noteq> S ''15/08/1998''"
    by (simp_all add: S_def)
  then show ?thesis
    by (simp add: dob_twice_def page_of_body_def assemble_def scrapePlayerProfile_extract_def
          bodyText_of_def Let_def dobPatterns_def dob_twice_exec group_def parseInt_25)
qed

section \<open>International career\<close>

lemma intl_at:
  assumes ws: "\<forall>c \<in> set ws. isSpace c"
    and post: "post = [] \<or> \<not> isDigit (hd post)"
  shows "match_at uc intlPattern bef
           (S ''Current international: Sweden'' @ ws @ S ''Caps/Goals: 30 / 15'' @ post)
    = Some \<lparr>index = length bef,
         groups = [Some (S ''Current international: Sweden'' @ ws @ S ''Caps/Goals: 30 / 15''),
                   Some (S ''Sweden''), Some (S ''30''), Some (S ''15'')],
         after = post\<rparr>"
proof (cases post)
  case Nil
  with ws show ?thesis
    by (simp add: intlPattern_def latin_def engine cls_match_ascii star_rules star_cls_run
          isSpace_def in_ranges_def digit_ranges_def space_ranges_def del: m.simps(7))
next
  case (Cons c cs)
  with post have "\<not> isDigit c" by simp
  then have dc: "cls_match uc True False [(48, 57)] c = False"
    by (simp add: cls_match_digit_raw isDigit_def in_ranges_def digit_ranges_def)
  from ws Cons show ?thesis
    by (simp add: intlPattern_def latin_def engine cls_match_ascii dc star_rules star_cls_run
          isSpace_def in_ranges_def digit_ranges_def space_ranges_def del: m.simps(7))
qed

lemma cleanText_Sweden: "cleanText (Some (S ''Sweden'')) = S ''Sweden''"
  by (simp add: cleanText_def classes engine methods cls_match_cs)

lemma parseInt_30: "parseInt10 (S ''30'') = Num 30"
  by (simp add: parseInt10_def parseInt_def digits_value_def classes S_def)

lemma parseInt_15: "parseInt10 (S ''15'') = Num 15"
  by (simp add: parseInt10_def parseInt_def digits_value_def classes S_def)

text \<open>
  C8 (as the code has it).  One match of the rule
  \<open>/Current international:\s*([A-Za-z\<dots>\s]+?)\s*Caps\/Goals:\s*(\d+)\s*\/\s*(\d+)/im\<close> gives
  the three fields.  For every body text in which \<open>Current international: Sweden\<close> is
  followed, after white space only (\<open>ws\<close>, possibly none), by \<open>Caps/Goals: 30 / 15\<close>,
  where no digit comes next and no match of the rule begins before, the record has the
  team \<open>Sweden\<close>, 30 caps and 15 goals.  This holds for every upper-casing table \<open>uc\<close>.
\<close>

theorem C8_international:
  assumes b: "body d = Some (pre @ S ''Current international: Sweden'' @ ws
                               @ S ''Caps/Goals: 30 / 15'' @ post)"
    and ws: "\<forall>c \<in> set ws. isSpace c"
    and post: "post = [] \<or> \<not> isDigit (hd post)"
    and first: "\<forall>r. exec uc intlPattern (pre @ S ''Current international: Sweden'' @ ws
                        @ S ''Caps/Goals: 30 / 15'' @ post) = Some r \<longrightarrow> length pre \<le> index r"
  shows "internationalTeam (assemble basicInfo team (scrapePlayerProfile_extract uc d))
           = Some (S ''Sweden'')
       \<and> internationalCaps (assemble basicInfo team (scrapePlayerProfile_extract uc d))
           = Some (Num 30)
       \<and> internationalGoals (assemble basicInfo team (scrapePlayerProfile_extract uc d))
           = Some (Num 15)"
proof -
  let ?F = "S ''Current international: Sweden'' @ ws @ S ''Caps/Goals: 30 / 15''"
  have "exec uc intlPattern (pre @ S ''Current international: Sweden'' @ ws
                        @ S ''Caps/Goals: 30 / 15'' @ post) =
     Some \<lparr>index = length (rev pre),
         groups = [Some ?F, Some (S ''Sweden''), Some (S ''30''), Some (S ''15'')], after = post\<rparr>"
    using first intl_at [OF ws post] by (rule exec_at)
  with b show ?thesis
    by (simp add: assemble_def scrapePlayerProfile_extract_def bodyText_of_def Let_def
          extract_international_def group_def capture_def cleanText_Sweden parseInt_30 parseInt_15)
qed

lemma intl_once_exec:
  "exec id intlPattern (S ''Viktor  '' @ S ''Current international: Sweden'' @ [10, 32]
     @ S ''Caps/Goals: 30 / 15'' @ S '' Market'')
   = Some \<lparr>index = 8,
       groups = [Some (S ''Current international: Sweden'' @ [10, 32] @ S ''Caps/Goals: 30 / 15''),
                 Some (S ''Sweden''), Some (S ''30''), Some (S ''15'')],
       after = S '' Market''\<rparr>"
  by (simp add: intlPattern_def latin_def classes engine cls_match_ascii
        replicate_numeral list_update_Cons_numeral)

theorem C8_international_witness:
  "body intl_once = Some (S ''Viktor  '' @ S ''Current international: Sweden'' @ [10, 32]
       @ S ''Caps/Goals: 30 / 15'' @ S '' Market'')
   \<and> isSpace 10 \<and> isSpace 32
   \<and> hd (S '' Market'') = 32 \<and> isDigit 32 = False
   \<and> exec id intlPattern (S ''Viktor  '' @ S ''Current international: Sweden'' @ [10, 32]
         @ S ''Caps/Goals: 30 / 15'' @ S '' Market'')
       = Some \<lparr>index = 8,
           groups = [Some (S ''Current international: Sweden'' @ [10, 32] @ S ''Caps/Goals: 30 / 15''),
                     Some (S ''Sweden''), Some (S ''30''), Some (S ''15'')],
           after = S '' Market''\<rparr>
   \<and> length (S ''Viktor  '') = 8
   \<and> internationalTeam (assemble a_player a_team (scrapePlayerProfile_extract id intl_once))
       = Some (S ''Sweden'')
   \<and> internationalCaps (assemble a_player a_team (scrapePlayerProfile_extract id intl_once))
       = Some (Num 30)
   \<and> internationalGoals (assemble a_player a_team (scrapePlayerProfile_extract id intl_once))
       = Some (Num 15)"
proof -
  have h1: "body intl_once = Some (S ''Viktor  '' @ S ''Current international: Sweden'' @ [10, 32]
       @ S ''Caps/Goals: 30 / 15'' @ S '' Market'')"
    by (simp add: intl_once_def page_of_body_def)
  have sp: "isSpace 10" "isSpace 32" and dg: "hd (S '' Market'') = 32" "isDigit 32 = False"
    and l: "length (S ''Viktor  '') = 8"
    by (simp_all add: classes S_def)
  from sp have h2: "\<forall>c \<in> set [10, 32]. isSpace c"
    by simp
  from dg have h3: "S '' Market'' = [] \<or> \<not> isDigit (hd (S '' Market''))"
    by simp
  have h4: "\<forall>r. exec id intlPattern (S ''Viktor  '' @ S ''Current international: Sweden'' @ [10, 32]
              @ S ''Caps/Goals: 30 / 15'' @ S '' Market'') = Some r
            \<longrightarrow> length (S ''Viktor  '') \<le> index r"
    using intl_once_exec by (simp add: S_def)
  note t = C8_international [OF h1 h2 h3 h4, of a_player a_team]
  from h1 sp dg intl_once_exec l t [THEN conjunct1] t [THEN conjunct2, THEN conjunct1]
    t [THEN conjunct2, THEN conjunct2]
  show ?thesis
    by (intro conjI)
qed

lemma intl_earlier_exec:
  "exec id intlPattern (S ''Current international: Norway Caps/Goals: 3 / 1 ''
     @ S ''Current international: Sweden'' @ S '' '' @ S ''Caps/Goals: 30 / 15'' @ S '' '')
   = Some \<lparr>index = 0,
       groups = [Some (S ''Current international: Norway Caps/Goals: 3 / 1''),
                 Some (S ''Norway''), Some (S ''3''), Some (S ''1'')],
       after = S '' Current international: Sweden Caps/Goals: 30 / 15 ''\<rparr>"
  by (simp add: intlPattern_def latin_def classes engine cls_match_ascii
        replicate_numeral list_update_Cons_numeral)

lemma intl_u21_exec:
  "exec id intlPattern (S ''Current international: Sweden'' @ S '' U21 ''
     @ S ''Caps/Goals: 30 / 15'') = None"
  by (simp add: intlPattern_def latin_def classes engine cls_match_ascii
        replicate_numeral list_update_Cons_numeral)

lemma intl_150_exec:
  "exec id intlPattern (S ''Current international: Sweden'' @ S '' ''
     @ S ''Caps/Goals: 30 / 15'' @ S ''0'')
   = Some \<lparr>index = 0,
       groups = [Some (S ''Current international: Sweden Caps/Goals: 30 / 150''),
                 Some (S ''Sweden''), Some (S ''30''), Some (S ''150'')],
       after = []\<rparr>"
  by (simp add: intlPattern_def latin_def classes engine cls_match_ascii
        replicate_numeral list_update_Cons_numeral)

lemma intl_small_values:
  "cleanText (Some (S ''Norway'')) = S ''Norway''"
  "parseInt10 (S ''3'') = Num 3"
  "parseInt10 (S ''1'') = Num 1"
  "parseInt10 (S ''150'') = Num 150"
  by (simp_all add: cleanText_def classes engine methods cls_match_cs parseInt10_def parseInt_def
        digits_value_def)

text \<open>
  C8 as stated fails on three body texts that contain \<open>Caps/Goals: 30 / 15\<close> after
  \<open>Current international: Sweden\<close>: with an earlier international career the record has
  that one; with \<open>U21\<close> between the two the rule does not match and the three fields are
  absent; with a further digit the goals are 150.
\<close>

theorem C8_counterexample:
  "body intl_earlier = Some (S ''Current international: Norway Caps/Goals: 3 / 1 ''
       @ S ''Current international: Sweden'' @ S '' '' @ S ''Caps/Goals: 30 / 15'' @ S '' '')
   \<and> internationalTeam (assemble a_player a_team (scrapePlayerProfile_extract id intl_earlier))
       = Some (S ''Norway'')
   \<and> internationalCaps (assemble a_player a_team (scrapePlayerProfile_extract id intl_earlier))
       = Some (Num 3)
   \<and> internationalGoals (assemble a_player a_team (scrapePlayerProfile_extract id intl_earlier))
       = Some (Num 1)
   \<and> S ''Norway'' \<noteq> S ''Sweden''
   \<and> body intl_u21 = Some (S ''Current international: Sweden'' @ S '' U21 ''
       @ S ''Caps/Goals: 30 / 15'')
   \<and> internationalTeam (assemble a_player a_team (scrapePlayerProfile_extract id intl_u21)) = None
   \<and> internationalCaps (assemble a_player a_team (scrapePlayerProfile_extract id intl_u21)) = None
   \<and> internationalGoals (assemble a_player a_team (scrapePlayerProfile_extract id intl_u21)) = None
   \<and> body intl_150 = Some (S ''Current international: Sweden'' @ S '' ''
       @ S ''Caps/Goals: 30 / 15'' @ S ''0'')
   \<and> internationalGoals (assemble a_player a_team (scrapePlayerProfile_extract id intl_150))
       = Some (Num 150)"
proof -
  have "S ''Norway'' \<noteq> S ''Sweden''"
    by (simp add: S_def)
  then show ?thesis
    by (simp add: intl_earlier_def intl_u21_def intl_150_def page_of_body_def assemble_def
          scrapePlayerProfile_extract_def bodyText_of_def Let_def extract_international_def
          intl_earlier_exec intl_u21_exec intl_150_exec group_def capture_def
          intl_small_values)
qed

section \<open>Citizenship\<close>

text \<open>
  C10.  In the profile scraper the citizenship of the player record is absent exactly
  when the rule matches nothing in the body text or every trimmed part of the capture
  has at most one code unit; it is never the empty list; otherwise it is the list of
  the parts longer than one code unit, which is not empty.
\<close>

theorem C10_citizenship:
  "(exec id citizenPattern (bodyText_of d) = None \<longrightarrow>
      citizenship (assemble basicInfo team (scrapePlayerProfile_extract uc d)) = None)
   \<and> (\<forall>mt. exec id citizenPattern (bodyText_of d) = Some mt \<longrightarrow>
        (if \<forall>c \<in> set (citizen_parts mt). length c \<le> 1
         then citizenship (assemble basicInfo team (scrapePlayerProfile_extract uc d)) = None
         else citizenship (assemble basicInfo team (scrapePlayerProfile_extract uc d))
                = Some (filter (\<lambda>c. 1 < length c) (citizen_parts mt))))
   \<and> citizenship (assemble basicInfo team (scrapePlayerProfile_extract uc d)) \<noteq> Some []
   \<and> (\<forall>cs. citizenship (assemble basicInfo team (scrapePlayerProfile_extract uc d)) = Some cs \<longrightarrow>
          cs \<noteq> [] \<and> (\<forall>c \<in> set cs. 1 < length c))"
proof -
  have c: "citizenship (assemble basicInfo team (scrapePlayerProfile_extract uc d))
        = (if extract_citizenship (bodyText_of d) = [] then None
           else Some (extract_citizenship (bodyText_of d)))"
    by (simp add: assemble_def scrapePlayerProfile_extract_def Let_def)
  have e: "\<forall>c \<in> set (extract_citizenship (bodyText_of d)). 1 < length c"
    by (auto simp: extract_citizenship_def split: option.splits)
  show ?thesis
    unfolding c using e
    by (auto simp: extract_citizenship_def filter_empty_conv not_less not_le split: option.splits)
qed

lemma cit_absent_exec: "exec id citizenPattern (bodyText_of cit_absent) = None"
  by (simp add: cit_absent_def page_of_body_def bodyText_of_def citizenPattern_def latin_def
        classes engine cls_match_cs replicate_numeral list_update_Cons_numeral)

lemma cit_short_exec: "exec id citizenPattern (bodyText_of cit_short) = Some cit_short_match"
  by (simp add: cit_short_def cit_short_match_def page_of_body_def bodyText_of_def
        citizenPattern_def latin_def classes engine cls_match_cs replicate_numeral
        list_update_Cons_numeral)

lemma cit_long_exec: "exec id citizenPattern (bodyText_of cit_long) = Some cit_long_match"
  by (simp add: cit_long_def cit_long_match_def page_of_body_def bodyText_of_def
        citizenPattern_def latin_def classes engine cls_match_cs replicate_numeral
        list_update_Cons_numeral)

lemma cit_short_parts: "citizen_parts cit_short_match = [S ''A'']"
  by (simp add: cit_short_match_def citizen_parts_def classes engine methods cls_match_cs)

lemma cit_long_parts: "citizen_parts cit_long_match = [S ''Sweden'']"
  by (simp add: cit_long_match_def citizen_parts_def classes engine methods cls_match_cs)

theorem C10_citizenship_witness:
  "exec id citizenPattern (bodyText_of cit_absent) = None
   \<and> citizenship (assemble a_player a_team (scrapePlayerProfile_extract id cit_absent)) = None
   \<and> exec id citizenPattern (bodyText_of cit_short) = Some cit_short_match
   \<and> citizen_parts cit_short_match = [S ''A''] \<and> length (S ''A'') = 1
   \<and> citizenship (assemble a_player a_team (scrapePlayerProfile_extract id cit_short)) = None
   \<and> exec id citizenPattern (bodyText_of cit_long) = Some cit_long_match
   \<and> citizen_parts cit_long_match = [S ''Sweden''] \<and> length (S ''Sweden'') = 6
   \<and> citizenship (assemble a_player a_team (scrapePlayerProfile_extract id cit_long))
       = Some [S ''Sweden'']"
proof -
  have la: "length (S ''A'') = 1" and ls: "length (S ''Sweden'') = 6"
    by (simp_all add: S_def)
  have s: "\<forall>c \<in> set (citizen_parts cit_short_match). length c \<le> 1"
    by (simp add: cit_short_parts la)
  have l: "\<not> (\<forall>c \<in> set (citizen_parts cit_long_match). length c \<le> 1)"
    by (simp add: cit_long_parts ls)
  have f: "filter (\<lambda>c. 1 < length c) (citizen_parts cit_long_match) = [S ''Sweden'']"
    by (simp add: cit_long_parts ls)
  note A = C10_citizenship [of cit_absent a_player a_team id]
  note B = C10_citizenship [of cit_short a_player a_team id]
  note C = C10_citizenship [of cit_long a_player a_team id]
  from A [THEN conjunct1] cit_absent_exec
  have 1: "citizenship (assemble a_player a_team (scrapePlayerProfile_extract id cit_absent)) = None"
    by (rule mp)
  from B [THEN conjunct2, THEN conjunct1, rule_format, OF cit_short_exec] s
  have 2: "citizenship (assemble a_player a_team (scrapePlayerProfile_extract id cit_short)) = None"
    by (simp only: if_True)
  from C [THEN conjunct2, THEN conjunct1, rule_format, OF cit_long_exec] l
  have 3: "citizenship (assemble a_player a_team (scrapePlayerProfile_extract id cit_long))
       = Some (filter (\<lambda>c. 1 < length c) (citizen_parts cit_long_match))"
    by (simp only: if_False)
  from cit_absent_exec 1 cit_short_exec cit_short_parts la 2 cit_long_exec cit_long_parts ls
    3 [unfolded f]
  show ?thesis
    by (intro conjI)
qed

end
